theory Spec2Isabelle
  imports Main "HOL-Library.Sublist"
begin

section \<open>The Intel Owl command-line client (\<^verbatim>\<open>src/intel_owl_client.py\<close>)\<close>

text \<open>
  The client parses its command line, prepares the input (a file or an observable), talks
  to the remote service through the four operations of the \<^verbatim>\<open>IntelOwl\<close> facade, polls
  for the result and prints it.  The embedding follows the source statement by statement.
  Everything outside the source file is a parameter of the model (record \<open>env\<close>): the
  remote service, the file system, \<^verbatim>\<open>hashlib.md5\<close>, the observable classifier and the
  colourised checkers.  What the program does to the outside world is returned as a
  chronological list of events.
\<close>

subsection \<open>Python values and their truth value\<close>

text \<open>
  The values found in the decoded JSON envelopes.  Floating-point numbers are left out:
  no decision of the client depends on one.
\<close>

datatype pyval =
    PNone
  | PBool bool
  | PInt int
  | PStr string
  | PList "pyval list"
  | PDict "(string \<times> pyval) list"

text \<open>Python's truth value test, as used by \<^verbatim>\<open>if errors:\<close> and \<^verbatim>\<open>if not status:\<close>.\<close>

fun truthy :: "pyval \<Rightarrow> bool" where
  "truthy PNone = False"
| "truthy (PBool b) = b"
| "truthy (PInt i) = (i \<noteq> 0)"
| "truthy (PStr s) = (s \<noteq> [])"
| "truthy (PList xs) = (xs \<noteq> [])"
| "truthy (PDict d) = (d \<noteq> [])"

subsection \<open>Exceptions\<close>

text \<open>
  The messages of \<^verbatim>\<open>IntelOwlClientException\<close>, one constructor for each
  \<^verbatim>\<open>raise\<close> of the source, carrying the values the f-string formats.
\<close>

datatype client_error =
    File_does_not_exist string
  | No_analysis_type
  | Api_failed string pyval
  | Without_status string pyval
  | Without_job_id string pyval
  | Unexpected_result_status pyval
  | Gave_status pyval
  | Polling_timeout pyval

datatype exn =
    IntelOwlClientException client_error
  | HTTPError string
  | AttributeError
  | NotImplementedError
  | IsADirectoryError
  | UnicodeEncodeError
  | OtherException string

text \<open>How the process (or the function) ends.\<close>

datatype outcome =
    Exited int
  | Returned
  | Uncaught exn

subsection \<open>Dictionaries\<close>

text \<open>\<^verbatim>\<open>d.get(k, default)\<close> on a dictionary.\<close>

definition dict_get :: "(string \<times> pyval) list \<Rightarrow> string \<Rightarrow> pyval \<Rightarrow> pyval" where
  "dict_get d k dflt = (case map_of d k of None \<Rightarrow> dflt | Some v \<Rightarrow> v)"

text \<open>
  \<^verbatim>\<open>answer.get(k, default)\<close> on an arbitrary value: only a dictionary has the
  method, on any other value the attribute access raises \<^verbatim>\<open>AttributeError\<close>.
  \<open>as_dict\<close> is that attribute access; the lookups that follow it on the same value
  are \<open>dict_get\<close>.
\<close>

fun as_dict :: "pyval \<Rightarrow> exn + (string \<times> pyval) list" where
  "as_dict (PDict d) = Inr d"
| "as_dict _ = Inl AttributeError"

subsection \<open>Strings and their encoding\<close>

text \<open>
  An observable is a Python \<^verbatim>\<open>str\<close>: a sequence of Unicode code points, modelled as a
  list of natural numbers.  Bytes are 8-bit characters.  (Command lines can deliver lone
  surrogates, the code points D800 to DFFF, through the escape of undecodable bytes.)
\<close>

type_synonym pystr = "nat list"

text \<open>The \<^verbatim>\<open>str\<close> of an ASCII literal.\<close>

definition str_of :: "string \<Rightarrow> pystr" where
  "str_of s = map of_char s"

definition is_ascii :: "pystr \<Rightarrow> bool" where
  "is_ascii v = list_all (\<lambda>c. c < 128) v"

text \<open>\<^verbatim>\<open>str.lower\<close> on an ASCII code point: \<open>A\<close>..\<open>Z\<close> become \<open>a\<close>..\<open>z\<close>.\<close>

definition lower_ascii :: "nat \<Rightarrow> nat" where
  "lower_ascii c = (if 65 \<le> c \<and> c \<le> 90 then c + 32 else c)"

text \<open>
  The UTF-8 encoding of one code point, of one to four bytes.  A surrogate has none:
  there \<^verbatim>\<open>str.encode("utf-8")\<close> raises \<^verbatim>\<open>UnicodeEncodeError\<close>.  (No \<^verbatim>\<open>str\<close> holds a
  number from 110000 hexadecimal on.)
\<close>

definition utf8 :: "nat \<Rightarrow> string option" where
  "utf8 c =
     (if c < 128 then Some [char_of c]
      else if c < 2048 then Some [char_of (192 + c div 64), char_of (128 + c mod 64)]
      else if 55296 \<le> c \<and> c < 57344 then None
      else if c < 65536
      then Some [char_of (224 + c div 4096), char_of (128 + c div 64 mod 64),
                 char_of (128 + c mod 64)]
      else if c < 1114112
      then Some [char_of (240 + c div 262144), char_of (128 + c div 4096 mod 64),
                 char_of (128 + c div 64 mod 64), char_of (128 + c mod 64)]
      else None)"

fun encode_utf8 :: "pystr \<Rightarrow> exn + string" where
  "encode_utf8 [] = Inr []"
| "encode_utf8 (c # cs) =
     (case utf8 c of
        None \<Rightarrow> Inl UnicodeEncodeError
      | Some bytes \<Rightarrow>
          (case encode_utf8 cs of
             Inl e \<Rightarrow> Inl e
           | Inr rest \<Rightarrow> Inr (bytes @ rest)))"

subsection \<open>Command line\<close>

text \<open>
  The subcommand and the one attribute its sub-parser defines: \<^verbatim>\<open>file\<close> has only
  \<^verbatim>\<open>--file\<close>, \<^verbatim>\<open>observable\<close> has only \<^verbatim>\<open>--value\<close> (lines 94--101).  Without a
  subcommand \<^verbatim>\<open>args.command\<close> is \<^verbatim>\<open>None\<close>.
\<close>

datatype subcommand =
    No_subcommand
  | File_subcommand string
  | Observable_subcommand pystr

record args =
  show_colors :: bool
  api_key :: "string option"
  certificate :: "string option"
  instance_url :: string
  debug :: bool
  log_to_file :: "string option"
  get_configuration :: bool
  analyzers_list :: "string list option"
  run_all_available_analyzers :: bool
  force_privacy :: bool
  private_job :: bool
  disable_external_analyzers :: bool
  check_reported_analysis_too :: bool
  skip_check_analysis_availability :: bool
  subcommand :: subcommand

text \<open>\<^verbatim>\<open>args.command\<close>.\<close>

fun command :: "subcommand \<Rightarrow> string option" where
  "command No_subcommand = None"
| "command (File_subcommand f) = Some ''file''"
| "command (Observable_subcommand v) = Some ''observable''"

text \<open>
  \<^verbatim>\<open>args.value\<close>: the attribute exists only in the namespace of the \<^verbatim>\<open>observable\<close>
  subcommand; reading it elsewhere raises \<^verbatim>\<open>AttributeError\<close>.
\<close>

fun attr_value :: "subcommand \<Rightarrow> exn + pystr" where
  "attr_value (Observable_subcommand v) = Inr v"
| "attr_value _ = Inl AttributeError"

text \<open>The truth value of \<^verbatim>\<open>args.analyzers_list\<close> (\<^verbatim>\<open>None\<close> or a list).\<close>

fun truthy_list :: "string list option \<Rightarrow> bool" where
  "truthy_list None = False"
| "truthy_list (Some xs) = (xs \<noteq> [])"

subsection \<open>Paths\<close>

text \<open>\<^verbatim>\<open>os.path.basename\<close>: what follows the last slash.\<close>

definition basename :: "string \<Rightarrow> string" where
  "basename p = rev (takeWhile (\<lambda>c. c \<noteq> CHR ''/'') (rev p))"

subsection \<open>The outside world\<close>

datatype fs_node =
    Regular_file string
  | Directory

datatype api_call =
    Get_analyzer_configs
  | Ask_analysis_availability "string option" "string list option" bool bool
  | Send_file_analysis_request "string option" "string list option" "string option"
      "string option" bool bool bool bool
  | Send_observable_analysis_request "string option" "string list option" pystr
      bool bool bool bool
  | Ask_analysis_result pyval

text \<open>
  A call of the facade returns the envelope (a dictionary) or raises.  The fingerprint
  \<^verbatim>\<open>md5\<close> is passed as the variable holds it: \<^verbatim>\<open>None\<close> or a hexadecimal digest.
\<close>

type_synonym reply = "exn + (string \<times> pyval) list"

datatype check_kind = Check_domain | Check_hash | Check_url | Check_ip

datatype level = Info | Warning | Error

datatype log_msg =
    Msg_error client_error "string option"
  | Msg_exception exn
  | Msg_get_analyzer_configs_failed pyval
  | Msg_extracted_configuration pyval
  | Msg_started_availability "string option" "string list option"
  | Msg_already_existing pyval "string option" pyval "string list option"
  | Msg_received_response "string option" pyval
  | Msg_started_job pyval "string option" pyval pyval pyval
  | Msg_started_polling
  | Msg_pending pyval "string option" "string list option"
  | Msg_finished pyval "string option" pyval "string list option"
  | Msg_elapsed_time pyval
  | Msg_results

datatype event =
    Print string
  | PPrint pyval
  | Get_logger bool "string option"
  | Log level log_msg
  | Read_file string
  | New_client "string option" "string option" string bool
  | Api api_call reply
  | Sleep nat
  | New_checkers pyval pystr
  | Classified pystr string
  | Checked check_kind

text \<open>
  The parameters of the model.  \<open>serve\<close> is the remote service behind the facade, a state
  machine of its own; \<open>fs\<close> is the file system; \<open>md5_hexdigest\<close> is
  \<^verbatim>\<open>hashlib.md5(b).hexdigest()\<close>; \<open>unicode_lower\<close> is \<^verbatim>\<open>str.lower\<close> on the strings that
  have a code point beyond ASCII, where it follows the Unicode tables of the Python
  runtime; the last two are the helpers of the colourised presentation (\<open>None\<close>: the
  check returned).
\<close>

record 's env =
  serve :: "'s \<Rightarrow> api_call \<Rightarrow> reply \<times> 's"
  fs :: "string \<Rightarrow> fs_node option"
  md5_hexdigest :: "string \<Rightarrow> string"
  unicode_lower :: "pystr \<Rightarrow> pystr"
  get_observable_classification :: "pystr \<Rightarrow> exn + string"
  run_check :: "check_kind \<Rightarrow> pyval \<Rightarrow> pystr \<Rightarrow> exn option"

text \<open>
  \<^verbatim>\<open>str.lower\<close>: on an ASCII string it changes the letters \<open>A\<close>..\<open>Z\<close> and nothing
  else; on any other string it is the parameter.
\<close>

definition lower :: "'s env \<Rightarrow> pystr \<Rightarrow> pystr" where
  "lower env v = (if is_ascii v then map lower_ascii v else unicode_lower env v)"

text \<open>
  The subcommand after line 137 has run, if it is reached: in observable mode
  \<^verbatim>\<open>args.value\<close> holds its lower-cased form from then on, also when the encoding of
  line 138 raises.
\<close>

definition lowered_subcommand :: "'s env \<Rightarrow> subcommand \<Rightarrow> subcommand" where
  "lowered_subcommand env sub =
     (case sub of
        Observable_subcommand v \<Rightarrow> Observable_subcommand (lower env v)
      | _ \<Rightarrow> sub)"

subsection \<open>Step 0: preparing the input (lines 127--144)\<close>

record prepared =
  p_md5 :: "string option"
  p_filename :: "string option"
  p_binary :: "string option"
  p_subcommand :: subcommand
  p_get_configuration_only :: bool

text \<open>
  The result is the exception raised, or the local variables together with the events.
  \<^verbatim>\<open>args.value\<close> is overwritten by its lower-cased form (line 137), which the updated
  subcommand records; the encoding of line 138 raises when that form has a surrogate.
\<close>

definition prepare_input :: "'s env \<Rightarrow> args \<Rightarrow> (exn + prepared) \<times> event list" where
  "prepare_input env a =
     (case subcommand a of
        File_subcommand path \<Rightarrow>
          (case fs env path of
             None \<Rightarrow> (Inl (IntelOwlClientException (File_does_not_exist path)), [])
           | Some Directory \<Rightarrow> (Inl IsADirectoryError, [])
           | Some (Regular_file binary) \<Rightarrow>
               (Inr \<lparr>p_md5 = Some (md5_hexdigest env binary),
                     p_filename = Some (basename path),
                     p_binary = Some binary,
                     p_subcommand = File_subcommand path,
                     p_get_configuration_only = False\<rparr>,
                [Read_file path]))
      | Observable_subcommand v \<Rightarrow>
          (case encode_utf8 (lower env v) of
             Inl e \<Rightarrow> (Inl e, [])
           | Inr encoded \<Rightarrow>
               (Inr \<lparr>p_md5 = Some (md5_hexdigest env encoded),
                     p_filename = None,
                     p_binary = None,
                     p_subcommand = Observable_subcommand (lower env v),
                     p_get_configuration_only = False\<rparr>,
                []))
      | No_subcommand \<Rightarrow>
          (if get_configuration a
           then (Inr \<lparr>p_md5 = None, p_filename = None, p_binary = None,
                      p_subcommand = No_subcommand,
                      p_get_configuration_only = True\<rparr>, [])
           else (Inl (IntelOwlClientException No_analysis_type), [])))"

subsection \<open>Results of a block of statements\<close>

text \<open>
  The body of the \<^verbatim>\<open>try\<close> statement either completes, raises an exception, or calls
  \<^verbatim>\<open>exit\<close>, whose \<^verbatim>\<open>SystemExit\<close> is no \<^verbatim>\<open>Exception\<close> and passes through the
  handlers.
\<close>

datatype result = Completed | Raised exn | Sys_exit int

text \<open>The local variables the handlers and the presentation read after the body.\<close>

record locals =
  l_md5 :: "string option"
  l_results :: pyval
  l_elapsed_time :: pyval
  l_subcommand :: subcommand

subsection \<open>Configuration only (lines 153--161)\<close>

definition get_analyzer_configs_only :: "'s env \<Rightarrow> 's \<Rightarrow> result \<times> 's \<times> event list" where
  "get_analyzer_configs_only env s =
     (case serve env s Get_analyzer_configs of
        (reply, s1) \<Rightarrow>
          (case reply of
             Inl e \<Rightarrow> (Raised e, s1, [Api Get_analyzer_configs reply])
           | Inr api_request_result \<Rightarrow>
               (let errors = dict_get api_request_result ''errors'' (PList []);
                    analyzers_config = dict_get api_request_result ''answer'' (PDict [])
                in (Sys_exit 0, s1,
                    [Api Get_analyzer_configs reply]
                    @ (if truthy errors
                       then [Log Error (Msg_get_analyzer_configs_failed errors)] else [])
                    @ [Log Info (Msg_extracted_configuration analyzers_config),
                       PPrint analyzers_config]))))"

subsection \<open>First step: ask for an available analysis (lines 163--202)\<close>

text \<open>
  The result is the pair \<open>(analysis_available, job_id_to_get)\<close>.  When the check is
  skipped \<^verbatim>\<open>job_id_to_get\<close> is not bound yet; the second step binds it.
\<close>

definition ask_analysis_availability ::
  "'s env \<Rightarrow> args \<Rightarrow> string option \<Rightarrow> 's \<Rightarrow> (exn + bool \<times> pyval) \<times> 's \<times> event list" where
  "ask_analysis_availability env a md5 s =
     (if skip_check_analysis_availability a then (Inr (False, PNone), s, [])
      else
        (let call = Ask_analysis_availability md5 (analyzers_list a)
                      (run_all_available_analyzers a) (check_reported_analysis_too a)
         in case serve env s call of
              (reply, s1) \<Rightarrow>
                (let evs = [Log Info (Msg_started_availability md5 (analyzers_list a)),
                            Api call reply]
                 in case reply of
                      Inl e \<Rightarrow> (Inl e, s1, evs)
                    | Inr api_request_result \<Rightarrow>
                        (let errors = dict_get api_request_result ''errors'' (PList [])
                         in if truthy errors
                            then (Inl (IntelOwlClientException
                                        (Api_failed ''ask_analysis_availability'' errors)),
                                  s1, evs)
                            else
                              (let answer = dict_get api_request_result ''answer'' (PDict [])
                               in case as_dict answer of
                                    Inl e \<Rightarrow> (Inl e, s1, evs)
                                  | Inr d \<Rightarrow>
                                      (let status = dict_get d ''status'' PNone
                                       in if \<not> truthy status
                                          then (Inl (IntelOwlClientException
                                                      (Without_status
                                                         ''ask_analysis_availability'' answer)),
                                                s1, evs)
                                          else if status \<noteq> PStr ''not_available''
                                          then
                                            (let job_id_to_get = dict_get d ''job_id'' (PStr [])
                                             in if truthy job_id_to_get
                                                then (Inr (True, job_id_to_get), s1,
                                                      evs @ [Log Info (Msg_already_existing
                                                               job_id_to_get md5 status
                                                               (analyzers_list a))])
                                                else (Inl (IntelOwlClientException
                                                            (Without_job_id
                                                               ''ask_analysis_availability''
                                                               answer)),
                                                      s1, evs))
                                          else (Inr (False, PNone), s1, evs)))))))"

subsection \<open>Second step: submit a new analysis (lines 205--262)\<close>

definition submission_call :: "args \<Rightarrow> prepared \<Rightarrow> exn + api_call" where
  "submission_call a p =
     (case p_subcommand p of
        File_subcommand path \<Rightarrow>
          Inr (Send_file_analysis_request (p_md5 p) (analyzers_list a) (p_filename p)
                 (p_binary p) (force_privacy a) (private_job a)
                 (disable_external_analyzers a) (run_all_available_analyzers a))
      | Observable_subcommand v \<Rightarrow>
          Inr (Send_observable_analysis_request (p_md5 p) (analyzers_list a) v
                 (force_privacy a) (private_job a)
                 (disable_external_analyzers a) (run_all_available_analyzers a))
      | No_subcommand \<Rightarrow> Inl NotImplementedError)"

text \<open>What follows the call, shared by both kinds of submission (lines 233--262).\<close>

definition submission_answer ::
  "string option \<Rightarrow> (string \<times> pyval) list \<Rightarrow> (exn + pyval) \<times> event list" where
  "submission_answer md5 api_request_result =
     (let errors = dict_get api_request_result ''errors'' (PList [])
      in if truthy errors
         then (Inl (IntelOwlClientException (Api_failed ''send_analysis_request'' errors)), [])
         else
           (let answer = dict_get api_request_result ''answer'' (PDict []);
                evs = [Log Info (Msg_received_response md5 answer)]
            in case as_dict answer of
                 Inl e \<Rightarrow> (Inl e, evs)
               | Inr d \<Rightarrow>
                   (let status = dict_get d ''status'' PNone
                    in if \<not> truthy status
                       then (Inl (IntelOwlClientException
                                   (Without_status ''send_analysis_request'' answer)), evs)
                       else if status \<noteq> PStr ''accepted''
                       then (Inl (IntelOwlClientException (Unexpected_result_status status)),
                             evs)
                       else
                         (let job_id_to_get = dict_get d ''job_id'' PNone;
                              analyzers_running = dict_get d ''analyzers_running'' PNone;
                              warnings = dict_get d ''warnings'' (PList [])
                          in if truthy job_id_to_get
                             then (Inr job_id_to_get,
                                   evs @ [Log Info (Msg_started_job job_id_to_get md5 status
                                                      analyzers_running warnings)])
                             else (Inl (IntelOwlClientException
                                         (Without_job_id ''send_analysis_request'' answer)),
                                   evs)))))"

definition send_analysis_request ::
  "'s env \<Rightarrow> args \<Rightarrow> prepared \<Rightarrow> 's \<Rightarrow> (exn + pyval) \<times> 's \<times> event list" where
  "send_analysis_request env a p s =
     (case submission_call a p of
        Inl e \<Rightarrow> (Inl e, s, [])
      | Inr call \<Rightarrow>
          (case serve env s call of
             (reply, s1) \<Rightarrow>
               (case reply of
                  Inl e \<Rightarrow> (Inl e, s1, [Api call reply])
                | Inr api_request_result \<Rightarrow>
                    (case submission_answer (p_md5 p) api_request_result of
                       (r, evs) \<Rightarrow> (r, s1, Api call reply # evs)))))"

subsection \<open>Third step: polling (lines 265--308)\<close>

definition polling_max_tries :: nat where
  "polling_max_tries = 60 * 20"

definition polling_interval :: nat where
  "polling_interval = 1"

text \<open>
  One pass through the body of the loop after the call has returned (lines 271--303):
  it raises, goes on to the next try, or leaves the loop with \<^verbatim>\<open>results\<close> and
  \<^verbatim>\<open>elapsed_time\<close> assigned.  The events are what the pass logs.
\<close>

datatype poll_action =
    Raise exn
  | Continue "event list"
  | Break pyval pyval "event list"

definition poll_once ::
  "args \<Rightarrow> string option \<Rightarrow> pyval \<Rightarrow> (string \<times> pyval) list \<Rightarrow> poll_action" where
  "poll_once a md5 job_id_to_get api_request_result =
     (let errors = dict_get api_request_result ''errors'' (PList [])
      in if truthy errors
         then Raise (IntelOwlClientException (Api_failed ''ask_analysis_result'' errors))
         else
           (let answer = dict_get api_request_result ''answer'' (PDict [])
            in case as_dict answer of
                 Inl e \<Rightarrow> Raise e
               | Inr d \<Rightarrow>
                   (let status = dict_get d ''status'' PNone
                    in if \<not> truthy status
                       then Raise (IntelOwlClientException
                                     (Without_status ''ask_analysis_result'' answer))
                       else if status = PStr ''invalid_id'' \<or> status = PStr ''not_available''
                       then Raise (IntelOwlClientException (Gave_status status))
                       else if status = PStr ''running''
                       then Continue []
                       else if status = PStr ''pending''
                       then Continue [Log Warning (Msg_pending job_id_to_get md5
                                                     (analyzers_list a))]
                       else if status = PStr ''reported_without_fails''
                               \<or> status = PStr ''reported_with_fails''
                               \<or> status = PStr ''failed''
                       then Break (dict_get d ''results'' (PList []))
                              (dict_get d ''elapsed_time_in_seconds'' (PList []))
                              [Log Info (Msg_finished job_id_to_get md5 status
                                           (analyzers_list a))]
                       else Continue [])))"

text \<open>
  The \<^verbatim>\<open>for\<close> loop, by recursion on the number of tries that are left.  The result is
  the exception raised in the loop, if any, and the variables \<^verbatim>\<open>results\<close> and
  \<^verbatim>\<open>elapsed_time\<close>, which keep their initial values \<^verbatim>\<open>[]\<close> and \<^verbatim>\<open>None\<close> unless the
  loop leaves through \<^verbatim>\<open>break\<close>.
\<close>

type_synonym poll_state = "exn option \<times> pyval \<times> pyval"

definition after ::
  "event list \<Rightarrow> poll_state \<times> 's \<times> event list \<Rightarrow> poll_state \<times> 's \<times> event list" where
  "after pre r = (case r of (st, s, evs) \<Rightarrow> (st, s, pre @ evs))"

fun polling_loop ::
  "'s env \<Rightarrow> args \<Rightarrow> string option \<Rightarrow> pyval \<Rightarrow> nat \<Rightarrow> 's
     \<Rightarrow> poll_state \<times> 's \<times> event list" where
  "polling_loop env a md5 job_id_to_get 0 s = ((None, PList [], PNone), s, [])"
| "polling_loop env a md5 job_id_to_get (Suc chances) s =
     (case serve env s (Ask_analysis_result job_id_to_get) of
        (reply, s1) \<Rightarrow>
          (let evs = [Sleep polling_interval, Api (Ask_analysis_result job_id_to_get) reply]
           in case reply of
                Inl e \<Rightarrow> ((Some e, PList [], PNone), s1, evs)
              | Inr api_request_result \<Rightarrow>
                  (case poll_once a md5 job_id_to_get api_request_result of
                     Raise e \<Rightarrow> ((Some e, PList [], PNone), s1, evs)
                   | Continue logged \<Rightarrow>
                       after (evs @ logged)
                         (polling_loop env a md5 job_id_to_get chances s1)
                   | Break results elapsed_time logged \<Rightarrow>
                       ((None, results, elapsed_time), s1, evs @ logged))))"

text \<open>The loop, and the check of \<^verbatim>\<open>results\<close> that follows it (lines 304--308).\<close>

definition polling ::
  "'s env \<Rightarrow> args \<Rightarrow> string option \<Rightarrow> pyval \<Rightarrow> 's \<Rightarrow> poll_state \<times> 's \<times> event list" where
  "polling env a md5 job_id_to_get s =
     (case polling_loop env a md5 job_id_to_get polling_max_tries s of
        ((raised, results, elapsed_time), s1, evs) \<Rightarrow>
          (case raised of
             Some e \<Rightarrow> ((Some e, results, elapsed_time), s1, Log Info Msg_started_polling # evs)
           | None \<Rightarrow>
               if \<not> truthy results
               then ((Some (IntelOwlClientException (Polling_timeout job_id_to_get)),
                      results, elapsed_time), s1, Log Info Msg_started_polling # evs)
               else ((None, results, elapsed_time), s1, Log Info Msg_started_polling # evs)))"

subsection \<open>The three steps in sequence (lines 163--308)\<close>

definition analysis ::
  "'s env \<Rightarrow> args \<Rightarrow> prepared \<Rightarrow> 's \<Rightarrow> poll_state \<times> 's \<times> event list" where
  "analysis env a p s =
     (case ask_analysis_availability env a (p_md5 p) s of
        (Inl e, s1, evs1) \<Rightarrow> ((Some e, PList [], PNone), s1, evs1)
      | (Inr (analysis_available, job0), s1, evs1) \<Rightarrow>
          (case (if \<not> analysis_available then send_analysis_request env a p s1
                 else (Inr job0, s1, [])) of
             (Inl e, s2, evs2) \<Rightarrow> ((Some e, PList [], PNone), s2, evs1 @ evs2)
           | (Inr job_id_to_get, s2, evs2) \<Rightarrow>
               (case polling env a (p_md5 p) job_id_to_get s2 of
                  (st, s3, evs3) \<Rightarrow> (st, s3, evs1 @ evs2 @ evs3))))"

subsection \<open>The body of the \<^verbatim>\<open>try\<close> statement (lines 127--308)\<close>

definition try_body :: "'s env \<Rightarrow> args \<Rightarrow> 's \<Rightarrow> result \<times> locals \<times> 's \<times> event list" where
  "try_body env a s =
     (case prepare_input env a of
        (Inl e, evs0) \<Rightarrow>
          (Raised e,
           \<lparr>l_md5 = None, l_results = PList [], l_elapsed_time = PNone,
            l_subcommand = lowered_subcommand env (subcommand a)\<rparr>, s, evs0)
      | (Inr p, evs0) \<Rightarrow>
          (let l = \<lparr>l_md5 = p_md5 p, l_results = PList [], l_elapsed_time = PNone,
                    l_subcommand = p_subcommand p\<rparr>;
               evs1 = evs0 @ [New_client (api_key a) (certificate a) (instance_url a) (debug a)]
           in if p_get_configuration_only p
              then (case get_analyzer_configs_only env s of
                      (r, s1, evs) \<Rightarrow> (r, l, s1, evs1 @ evs))
              else
                (case analysis env a p s of
                   ((raised, results, elapsed_time), s1, evs) \<Rightarrow>
                     ((case raised of Some e \<Rightarrow> Raised e | None \<Rightarrow> Completed),
                      l\<lparr>l_results := results, l_elapsed_time := elapsed_time\<rparr>,
                      s1, evs1 @ evs))))"

subsection \<open>The handlers (lines 310--315)\<close>

fun handlers :: "result \<Rightarrow> string option \<Rightarrow> event list" where
  "handlers (Raised (IntelOwlClientException e)) md5 = [Log Error (Msg_error e md5)]"
| "handlers (Raised e) md5 = [Log Error (Msg_exception e)]"
| "handlers _ md5 = []"

subsection \<open>Presentation of the results (lines 317--331)\<close>

definition classify_kind :: "string \<Rightarrow> check_kind" where
  "classify_kind observable =
     (if sublist ''domain'' observable then Check_domain
      else if sublist ''hash'' observable then Check_hash
      else if sublist ''url'' observable then Check_url
      else Check_ip)"

definition present :: "'s env \<Rightarrow> bool \<Rightarrow> subcommand \<Rightarrow> pyval \<Rightarrow> outcome \<times> event list" where
  "present env colors sub results =
     (if colors then
        (case attr_value sub of
           Inl e \<Rightarrow> (Uncaught e, [])
         | Inr v \<Rightarrow>
             (case get_observable_classification env v of
                Inl e \<Rightarrow> (Uncaught e, [New_checkers results v])
              | Inr observable \<Rightarrow>
                  (let evs = [New_checkers results v, Classified v observable,
                              Checked (classify_kind observable)]
                   in case run_check env (classify_kind observable) results v of
                        Some e \<Rightarrow> (Uncaught e, evs)
                      | None \<Rightarrow> (Returned, evs))))
      else (Returned, [PPrint results]))"

subsection \<open>The two functions of the source\<close>

text \<open>
  What follows the body of the \<^verbatim>\<open>try\<close> statement unless the body has called
  \<^verbatim>\<open>exit\<close>: the handler of the exception, the two log lines and the presentation.
\<close>

definition epilogue :: "'s env \<Rightarrow> args \<Rightarrow> result \<Rightarrow> locals \<Rightarrow> outcome \<times> event list" where
  "epilogue env a r l =
     (case present env (show_colors a) (l_subcommand l) (l_results l) of
        (out, evs_p) \<Rightarrow>
          (out,
           handlers r (l_md5 l)
           @ [Log Info (Msg_elapsed_time (l_elapsed_time l)), Log Info Msg_results]
           @ evs_p))"

definition pyintelowl_logic :: "'s env \<Rightarrow> args \<Rightarrow> 's \<Rightarrow> outcome \<times> 's \<times> event list" where
  "pyintelowl_logic env a s =
     (case try_body env a s of
        (r, l, s1, evs) \<Rightarrow>
          (case r of
             Sys_exit n \<Rightarrow> (Exited n, s1, evs)
           | _ \<Rightarrow> (case epilogue env a r l of (out, evs_e) \<Rightarrow> (out, s1, evs @ evs_e))))"

definition intel_owl_client :: "'s env \<Rightarrow> args \<Rightarrow> 's \<Rightarrow> outcome \<times> 's \<times> event list" where
  "intel_owl_client env a s =
     (if \<not> get_configuration a \<and> \<not> truthy_list (analyzers_list a)
         \<and> \<not> run_all_available_analyzers a
      then (Exited 2, s,
            [Print ''you must specify at least an analyzer (-a) or every available analyzer (--aa)''])
      else if \<not> get_configuration a \<and> truthy_list (analyzers_list a)
              \<and> run_all_available_analyzers a
      then (Exited 3, s, [Print ''you must specify either --aa or -a, not both''])
      else
        (case pyintelowl_logic env a s of
           (out, s1, evs) \<Rightarrow> (out, s1, Get_logger (debug a) (log_to_file a) # evs)))"

subsection \<open>Reading a trace\<close>

text \<open>
  The calls of the facade in a trace with their replies, the calls alone, the calls that
  poll and the calls that submit, and the arguments of \<^verbatim>\<open>time.sleep\<close>.
\<close>

fun api_events :: "event list \<Rightarrow> (api_call \<times> reply) list" where
  "api_events [] = []"
| "api_events (Api c r # evs) = (c, r) # api_events evs"
| "api_events (_ # evs) = api_events evs"

definition api_calls :: "event list \<Rightarrow> api_call list" where
  "api_calls evs = map fst (api_events evs)"

fun is_poll :: "api_call \<Rightarrow> bool" where
  "is_poll (Ask_analysis_result j) = True"
| "is_poll _ = False"

fun is_submission :: "api_call \<Rightarrow> bool" where
  "is_submission (Send_file_analysis_request m al fn b fp pj de ra) = True"
| "is_submission (Send_observable_analysis_request m al v fp pj de ra) = True"
| "is_submission _ = False"

fun sleeps :: "event list \<Rightarrow> nat list" where
  "sleeps [] = []"
| "sleeps (Sleep n # evs) = n # sleeps evs"
| "sleeps (_ # evs) = sleeps evs"

text \<open>The fingerprint a call carries, if it takes one.\<close>

fun fingerprint_of :: "api_call \<Rightarrow> string option option" where
  "fingerprint_of (Ask_analysis_availability m al ra cr) = Some m"
| "fingerprint_of (Send_file_analysis_request m al fn b fp pj de ra) = Some m"
| "fingerprint_of (Send_observable_analysis_request m al v fp pj de ra) = Some m"
| "fingerprint_of _ = None"

text \<open>
  The command line passes the check of lines 105--114: with \<^verbatim>\<open>--get-configuration\<close>,
  or with exactly one of \<^verbatim>\<open>--analyzers-list\<close> and
  \<^verbatim>\<open>--run-all-available-analyzers\<close>.
\<close>

definition passes_validation :: "args \<Rightarrow> bool" where
  "passes_validation a \<longleftrightarrow>
     get_configuration a
     \<or> truthy_list (analyzers_list a) \<noteq> run_all_available_analyzers a"

text \<open>The fields of an envelope that the client reads.\<close>

definition errors_of :: "(string \<times> pyval) list \<Rightarrow> pyval" where
  "errors_of api_request_result = dict_get api_request_result ''errors'' (PList [])"

definition answer_of :: "(string \<times> pyval) list \<Rightarrow> pyval" where
  "answer_of api_request_result = dict_get api_request_result ''answer'' (PDict [])"


text \<open>
  An envelope without errors whose answer is a dictionary with the given status, and the
  two fields of such an answer that a terminal poll reads.
\<close>

definition has_status :: "(string \<times> pyval) list \<Rightarrow> pyval \<Rightarrow> bool" where
  "has_status api_request_result status =
     (\<not> truthy (errors_of api_request_result)
      \<and> (case as_dict (answer_of api_request_result) of
            Inl e \<Rightarrow> False
          | Inr d \<Rightarrow> dict_get d ''status'' PNone = status))"

definition field_of :: "(string \<times> pyval) list \<Rightarrow> string \<Rightarrow> pyval \<Rightarrow> pyval" where
  "field_of api_request_result k dflt =
     (case as_dict (answer_of api_request_result) of
        Inl e \<Rightarrow> dflt
      | Inr d \<Rightarrow> dict_get d k dflt)"

text \<open>
  A poll answer after which the loop goes on: no errors, and a status that is neither
  missing, nor one of the two rejections, nor one of the three terminal ones.
\<close>

definition terminal_status :: "pyval \<Rightarrow> bool" where
  "terminal_status status \<longleftrightarrow>
     status = PStr ''reported_without_fails'' \<or> status = PStr ''reported_with_fails''
     \<or> status = PStr ''failed''"

definition goes_on :: "reply \<Rightarrow> bool" where
  "goes_on reply =
     (case reply of
        Inl e \<Rightarrow> False
      | Inr api_request_result \<Rightarrow>
          \<not> truthy (errors_of api_request_result)
          \<and> (case as_dict (answer_of api_request_result) of
                Inl e \<Rightarrow> False
              | Inr d \<Rightarrow>
                  (let status = dict_get d ''status'' PNone
                   in truthy status \<and> status \<noteq> PStr ''invalid_id''
                      \<and> status \<noteq> PStr ''not_available'' \<and> \<not> terminal_status status)))"

subsection \<open>Concrete worlds\<close>

text \<open>
  A scripted service answers the calls with the replies of a list, in order, whatever
  the call; once the list is used up every call fails.
\<close>

fun scripted :: "reply list \<Rightarrow> api_call \<Rightarrow> reply \<times> reply list" where
  "scripted [] c = (Inl (HTTPError ''no reply''), [])"
| "scripted (r # rs) c = (r, rs)"

definition envelope :: "pyval \<Rightarrow> (string \<times> pyval) list \<Rightarrow> reply" where
  "envelope errors answer = Inr [(''errors'', errors), (''answer'', PDict answer)]"

definition scripted_env :: "(string \<Rightarrow> fs_node option) \<Rightarrow> reply list env" where
  "scripted_env files =
     \<lparr>serve = scripted, fs = files, md5_hexdigest = (\<lambda>b. ''md5:'' @ b),
      unicode_lower = (\<lambda>v. v),
      get_observable_classification = (\<lambda>v. Inr ''domain''),
      run_check = (\<lambda>k r v. None)\<rparr>"

definition one_file :: "string \<Rightarrow> fs_node option" where
  "one_file p = (if p = ''/tmp/sample.bin'' then Some (Regular_file ''MZ'') else None)"

text \<open>A service that accepts every submission and whose jobs run forever.\<close>

definition busy_env :: "unit env" where
  "busy_env =
     \<lparr>serve = (\<lambda>s c. (if is_poll c then envelope (PList []) [(''status'', PStr ''running'')]
                         else envelope (PList [])
                                [(''status'', PStr ''accepted''), (''job_id'', PInt 7)], s)),
      fs = one_file, md5_hexdigest = (\<lambda>b. ''md5:'' @ b),
      unicode_lower = (\<lambda>v. v),
      get_observable_classification = (\<lambda>v. Inr ''domain''),
      run_check = (\<lambda>k r v. None)\<rparr>"

definition base_args :: args where
  "base_args =
     \<lparr>show_colors = False, api_key = Some ''key'', certificate = None,
      instance_url = ''https://owl.example'', debug = False, log_to_file = None,
      get_configuration = False, analyzers_list = Some [''Fprot''],
      run_all_available_analyzers = False, force_privacy = False, private_job = False,
      disable_external_analyzers = False, check_reported_analysis_too = False,
      skip_check_analysis_availability = False, subcommand = No_subcommand\<rparr>"

definition observable_args :: args where
  "observable_args =
     base_args\<lparr>subcommand := Observable_subcommand (str_of ''Example.COM'')\<rparr>"


definition file_args :: args where
  "file_args = base_args\<lparr>subcommand := File_subcommand ''/tmp/sample.bin''\<rparr>"

definition coloured_file_args :: args where
  "coloured_file_args = file_args\<lparr>show_colors := True\<rparr>"

definition missing_file_args :: args where
  "missing_file_args = base_args\<lparr>subcommand := File_subcommand ''/tmp/missing.bin''\<rparr>"

section \<open>Properties\<close>

subsection \<open>Traces of the steps\<close>

lemma api_events_append [simp]: "api_events (xs @ ys) = api_events xs @ api_events ys"
  by (induction xs rule: api_events.induct) simp_all

lemma sleeps_append [simp]: "sleeps (xs @ ys) = sleeps xs @ sleeps ys"
  by (induction xs rule: sleeps.induct) simp_all

lemma api_calls_append [simp]: "api_calls (xs @ ys) = api_calls xs @ api_calls ys"
  by (simp add: api_calls_def)

lemma api_events_mem: "Api c r \<in> set evs \<longleftrightarrow> (c, r) \<in> set (api_events evs)"
  by (induction evs rule: api_events.induct) auto

lemma prepare_input_quiet:
  "prepare_input env a = (r, evs) \<Longrightarrow> api_events evs = [] \<and> sleeps evs = []"
  by (auto simp: prepare_input_def
      split: subcommand.splits option.splits fs_node.splits sum.splits if_splits)

lemma configs_api_events:
  "get_analyzer_configs_only env s = (r, s1, evs) \<Longrightarrow>
   api_events evs = [(Get_analyzer_configs, fst (serve env s Get_analyzer_configs))]"
  by (auto simp: get_analyzer_configs_only_def Let_def split: prod.splits sum.splits)

lemma availability_api_events:
  "ask_analysis_availability env a md5 s = (r, s1, evs) \<Longrightarrow>
   api_events evs =
     (if skip_check_analysis_availability a then []
      else [(Ask_analysis_availability md5 (analyzers_list a)
               (run_all_available_analyzers a) (check_reported_analysis_too a),
             fst (serve env s (Ask_analysis_availability md5 (analyzers_list a)
               (run_all_available_analyzers a) (check_reported_analysis_too a))))])"
  by (auto simp: ask_analysis_availability_def Let_def split: prod.splits sum.splits if_splits)

lemma submission_answer_quiet:
  "submission_answer md5 d = (r, evs) \<Longrightarrow> api_events evs = [] \<and> sleeps evs = []"
  by (auto simp: submission_answer_def Let_def split: sum.splits if_splits)

lemma submission_api_events:
  "send_analysis_request env a p s = (r, s1, evs) \<Longrightarrow>
   api_events evs =
     (case submission_call a p of Inl e \<Rightarrow> []
      | Inr call \<Rightarrow> [(call, fst (serve env s call))])"
  by (auto simp: send_analysis_request_def split: prod.splits sum.splits dest: submission_answer_quiet)

lemma submission_call_is_submission: "submission_call a p = Inr c \<Longrightarrow> is_submission c"
  by (auto simp: submission_call_def split: subcommand.splits)

lemma submission_call_fingerprint: "submission_call a p = Inr c \<Longrightarrow> fingerprint_of c = Some (p_md5 p)"
  by (auto simp: submission_call_def split: subcommand.splits)

lemma poll_once_quiet:
  "poll_once a md5 j d = Continue lg \<Longrightarrow> api_events lg = [] \<and> sleeps lg = []"
  "poll_once a md5 j d = Break rs el lg \<Longrightarrow> api_events lg = [] \<and> sleeps lg = []"
  by (auto simp: poll_once_def Let_def split: sum.splits if_splits)

lemma polling_loop_calls:
  "polling_loop env a md5 j n s = (st, s1, evs) \<Longrightarrow>
   \<exists>k\<le>n. api_calls evs = replicate k (Ask_analysis_result j)
        \<and> sleeps evs = replicate k polling_interval \<and> (0 < n \<longrightarrow> 0 < k)"
proof (induction n arbitrary: s st s1 evs)
  case 0
  then show ?case by (simp add: api_calls_def)
next
  case (Suc n)
  obtain reply s' where serve: "serve env s (Ask_analysis_result j) = (reply, s')"
    by (cases "serve env s (Ask_analysis_result j)")
  show ?case
  proof (cases reply)
    case (Inl e)
    with Suc.prems serve have "evs = [Sleep polling_interval, Api (Ask_analysis_result j) reply]"
      by auto
    then have "api_calls evs = replicate 1 (Ask_analysis_result j)
        \<and> sleeps evs = replicate 1 polling_interval"
      by (simp add: api_calls_def)
    then show ?thesis by (intro exI[of _ 1]) simp
  next
    case (Inr d)
    show ?thesis
    proof (cases "poll_once a md5 j d")
      case (Raise e)
      with Suc.prems serve Inr
      have "evs = [Sleep polling_interval, Api (Ask_analysis_result j) reply]"
        by auto
      then have "api_calls evs = replicate 1 (Ask_analysis_result j)
          \<and> sleeps evs = replicate 1 polling_interval"
        by (simp add: api_calls_def)
      then show ?thesis by (intro exI[of _ 1]) simp
    next
      case (Continue lg)
      obtain st' s'' evs' where rest: "polling_loop env a md5 j n s' = (st', s'', evs')"
        by (cases "polling_loop env a md5 j n s'") auto
      from Suc.IH[OF rest] obtain k where k: "k \<le> n"
        "api_calls evs' = replicate k (Ask_analysis_result j)"
        "sleeps evs' = replicate k polling_interval" by blast
      from Suc.prems serve Inr Continue rest
      have evs: "evs = [Sleep polling_interval, Api (Ask_analysis_result j) reply] @ lg @ evs'"
        by (auto simp: after_def)
      have "api_calls evs = replicate (Suc k) (Ask_analysis_result j)
          \<and> sleeps evs = replicate (Suc k) polling_interval"
        using k poll_once_quiet(1)[OF Continue] by (simp add: evs api_calls_def)
      with k(1) show ?thesis by (intro exI[of _ "Suc k"]) simp
    next
      case (Break rs el lg)
      with Suc.prems serve Inr
      have "evs = [Sleep polling_interval, Api (Ask_analysis_result j) reply] @ lg"
        by auto
      then have "api_calls evs = replicate 1 (Ask_analysis_result j)
          \<and> sleeps evs = replicate 1 polling_interval"
        using poll_once_quiet(2)[OF Break] by (simp add: api_calls_def)
      then show ?thesis by (intro exI[of _ 1]) simp
    qed
  qed
qed

lemma polling_calls:
  "polling env a md5 j s = (st, s1, evs) \<Longrightarrow>
   \<exists>k. 0 < k \<and> k \<le> polling_max_tries \<and> api_calls evs = replicate k (Ask_analysis_result j)
        \<and> sleeps evs = replicate k polling_interval"
proof -
  assume run: "polling env a md5 j s = (st, s1, evs)"
  obtain st' s' evs' where loop: "polling_loop env a md5 j polling_max_tries s = (st', s', evs')"
    by (cases "polling_loop env a md5 j polling_max_tries s") auto
  from run loop have evs: "evs = Log Info Msg_started_polling # evs'"
    by (auto simp: polling_def split: prod.splits option.splits if_splits)
  have "0 < polling_max_tries" by (simp add: polling_max_tries_def)
  with polling_loop_calls[OF loop] show ?thesis
    by (auto simp: evs api_calls_def)
qed

lemma present_quiet: "api_events (snd (present env colors sub results)) = [] \<and> sleeps (snd (present env colors sub results)) = []"
  by (auto simp: present_def Let_def split: sum.splits option.splits)

lemma handlers_quiet: "api_events (handlers r md5) = [] \<and> sleeps (handlers r md5) = []"
  by (cases "(r, md5)" rule: handlers.cases) auto



lemma epilogue_quiet: "api_events (snd (epilogue env a r l)) = [] \<and> sleeps (snd (epilogue env a r l)) = []"
  using present_quiet[of env "show_colors a" "l_subcommand l" "l_results l"]
    handlers_quiet[of r "l_md5 l"]
  by (auto simp: epilogue_def split: prod.splits)

subsection \<open>The paths through a run\<close>

lemma analysis_cases [consumes 1, case_names avail_raised reused send_raised submitted]:
  assumes "analysis env a p s = (st, s', evs)"
  obtains
    e where "ask_analysis_availability env a (p_md5 p) s = (Inl e, s', evs)"
      and "st = (Some e, PList [], PNone)"
  | job s1 evs1 evs3 where
      "ask_analysis_availability env a (p_md5 p) s = (Inr (True, job), s1, evs1)"
      and "polling env a (p_md5 p) job s1 = (st, s', evs3)" and "evs = evs1 @ evs3"
  | job0 s1 evs1 e evs2 where
      "ask_analysis_availability env a (p_md5 p) s = (Inr (False, job0), s1, evs1)"
      and "send_analysis_request env a p s1 = (Inl e, s', evs2)"
      and "st = (Some e, PList [], PNone)" and "evs = evs1 @ evs2"
  | job0 s1 evs1 job s2 evs2 evs3 where
      "ask_analysis_availability env a (p_md5 p) s = (Inr (False, job0), s1, evs1)"
      and "send_analysis_request env a p s1 = (Inr job, s2, evs2)"
      and "polling env a (p_md5 p) job s2 = (st, s', evs3)" and "evs = evs1 @ evs2 @ evs3"
  using assms
  by (auto simp: analysis_def split: prod.splits sum.splits if_splits)

lemma client_cases [consumes 1, case_names rejected prepare_raised configs_raised configs_exit analysed]:
  assumes "intel_owl_client env a s = (out, s', evs)"
  obtains
    msg where "\<not> passes_validation a" and "evs = [Print msg]" and "out = Exited 2 \<or> out = Exited 3"
  | e evs0 l where "passes_validation a" and "prepare_input env a = (Inl e, evs0)"
      and "l = \<lparr>l_md5 = None, l_results = PList [], l_elapsed_time = PNone,
                l_subcommand = lowered_subcommand env (subcommand a)\<rparr>"
      and "out = fst (epilogue env a (Raised e) l)"
      and "evs = Get_logger (debug a) (log_to_file a) # evs0 @ snd (epilogue env a (Raised e) l)"
  | p evs0 e evs1 l where "passes_validation a" and "prepare_input env a = (Inr p, evs0)"
      and "p_get_configuration_only p"
      and "get_analyzer_configs_only env s = (Raised e, s', evs1)"
      and "l = \<lparr>l_md5 = p_md5 p, l_results = PList [], l_elapsed_time = PNone,
                l_subcommand = p_subcommand p\<rparr>"
      and "out = fst (epilogue env a (Raised e) l)"
      and "evs = Get_logger (debug a) (log_to_file a) # evs0
                 @ [New_client (api_key a) (certificate a) (instance_url a) (debug a)]
                 @ evs1 @ snd (epilogue env a (Raised e) l)"
  | p evs0 evs1 where "passes_validation a" and "prepare_input env a = (Inr p, evs0)"
      and "p_get_configuration_only p"
      and "get_analyzer_configs_only env s = (Sys_exit 0, s', evs1)"
      and "out = Exited 0"
      and "evs = Get_logger (debug a) (log_to_file a) # evs0
                 @ [New_client (api_key a) (certificate a) (instance_url a) (debug a)] @ evs1"
  | p evs0 raised results elapsed_time evsa r l where "passes_validation a"
      and "prepare_input env a = (Inr p, evs0)" and "\<not> p_get_configuration_only p"
      and "analysis env a p s = ((raised, results, elapsed_time), s', evsa)"
      and "r = (case raised of Some e \<Rightarrow> Raised e | None \<Rightarrow> Completed)"
      and "l = \<lparr>l_md5 = p_md5 p, l_results = results, l_elapsed_time = elapsed_time,
                l_subcommand = p_subcommand p\<rparr>"
      and "out = fst (epilogue env a r l)"
      and "evs = Get_logger (debug a) (log_to_file a) # evs0
                 @ [New_client (api_key a) (certificate a) (instance_url a) (debug a)]
                 @ evsa @ snd (epilogue env a r l)"
proof (cases "passes_validation a")
  case False
  with assms that(1) show ?thesis
    by (auto simp: intel_owl_client_def passes_validation_def split: if_splits)
next
  case valid: True
  then have run: "pyintelowl_logic env a s = (out, s', tl evs)"
    and evs: "evs = Get_logger (debug a) (log_to_file a) # tl evs"
    using assms by (auto simp: intel_owl_client_def passes_validation_def split: if_splits prod.splits)
  obtain pr evs0 where prep: "prepare_input env a = (pr, evs0)"
    by (cases "prepare_input env a")
  show ?thesis
  proof (cases pr)
    case (Inl e)
    with run prep have "out = fst (epilogue env a (Raised e) \<lparr>l_md5 = None, l_results = PList [], l_elapsed_time = PNone,
                l_subcommand = lowered_subcommand env (subcommand a)\<rparr>)"
      "tl evs = evs0 @ snd (epilogue env a (Raised e) \<lparr>l_md5 = None, l_results = PList [], l_elapsed_time = PNone,
                l_subcommand = lowered_subcommand env (subcommand a)\<rparr>)"
      by (auto simp: pyintelowl_logic_def try_body_def split: prod.splits)
    with that(2)[OF valid prep[unfolded Inl] refl] evs show ?thesis by metis
  next
    case (Inr p)
    show ?thesis
    proof (cases "p_get_configuration_only p")
      case True
      obtain r s1 evs1 where gc: "get_analyzer_configs_only env s = (r, s1, evs1)"
        by (cases "get_analyzer_configs_only env s") auto
      then have "(\<exists>e. r = Raised e) \<or> r = Sys_exit 0"
        by (auto simp: get_analyzer_configs_only_def Let_def split: prod.splits sum.splits)
      then show ?thesis
      proof
        assume "\<exists>e. r = Raised e"
        then obtain e where r: "r = Raised e" ..
        with run prep Inr True gc have "s1 = s'" and
          "out = fst (epilogue env a (Raised e) \<lparr>l_md5 = p_md5 p, l_results = PList [], l_elapsed_time = PNone,
                l_subcommand = p_subcommand p\<rparr>)"
          "tl evs = evs0 @ [New_client (api_key a) (certificate a) (instance_url a) (debug a)]
                 @ evs1 @ snd (epilogue env a (Raised e) \<lparr>l_md5 = p_md5 p, l_results = PList [], l_elapsed_time = PNone,
                l_subcommand = p_subcommand p\<rparr>)"
          by (auto simp: pyintelowl_logic_def try_body_def Let_def split: prod.splits)
        with that(3)[OF valid prep[unfolded Inr] True _ refl] gc r evs show ?thesis by metis
      next
        assume r: "r = Sys_exit 0"
        with run prep Inr True gc have "s1 = s'" and "out = Exited 0"
          "tl evs = evs0 @ [New_client (api_key a) (certificate a) (instance_url a) (debug a)] @ evs1"
          by (auto simp: pyintelowl_logic_def try_body_def Let_def split: prod.splits)
        with that(4)[OF valid prep[unfolded Inr] True] gc r evs show ?thesis by metis
      qed
    next
      case False
      obtain raised results elapsed_time s1 evsa where
        an: "analysis env a p s = ((raised, results, elapsed_time), s1, evsa)"
        by (cases "analysis env a p s") auto
      define r where "r = (case raised of Some e \<Rightarrow> Raised e | None \<Rightarrow> Completed)"
      define l where "l = \<lparr>l_md5 = p_md5 p, l_results = results, l_elapsed_time = elapsed_time,
                l_subcommand = p_subcommand p\<rparr>"
      from run prep Inr False an have "s1 = s'" and
        "out = fst (epilogue env a r l)"
        "tl evs = evs0 @ [New_client (api_key a) (certificate a) (instance_url a) (debug a)]
                 @ evsa @ snd (epilogue env a r l)"
        by (auto simp: pyintelowl_logic_def try_body_def Let_def r_def l_def split: prod.splits option.splits)
      with that(5)[OF valid prep[unfolded Inr] False _ r_def l_def] an evs show ?thesis by metis
    qed
  qed
qed

subsection \<open>Lower-casing\<close>





lemma lowered_subcommand_simps [simp]:
  "lowered_subcommand env No_subcommand = No_subcommand"
  "lowered_subcommand env (File_subcommand path) = File_subcommand path"
  "lowered_subcommand env (Observable_subcommand v) = Observable_subcommand (lower env v)"
  by (simp_all add: lowered_subcommand_def)

subsection \<open>The check of the command line\<close>

text \<open>
  Claim C3.  Without \<^verbatim>\<open>--get-configuration\<close>: when neither \<^verbatim>\<open>--analyzers-list\<close> nor
  \<^verbatim>\<open>--run-all-available-analyzers\<close> is given the process exits with code 2, when both
  are given it exits with code 3.  In both cases the only event is the printed message:
  no logger is created, no call of the facade is made, and the service is left in its
  state.  (\<^verbatim>\<open>argparse\<close> yields \<^verbatim>\<open>None\<close> or a non-empty list for the option, so its truth
  value is whether it was given.)
\<close>

theorem validation_exit_codes:
  "\<not> get_configuration a \<Longrightarrow>
   (\<not> truthy_list (analyzers_list a) \<and> \<not> run_all_available_analyzers a \<longrightarrow>
      intel_owl_client env a s =
        (Exited 2, s,
         [Print ''you must specify at least an analyzer (-a) or every available analyzer (--aa)'']))
   \<and> (truthy_list (analyzers_list a) \<and> run_all_available_analyzers a \<longrightarrow>
      intel_owl_client env a s =
        (Exited 3, s, [Print ''you must specify either --aa or -a, not both'']))"
  by (simp add: intel_owl_client_def)

text \<open>Both cases of C3 on concrete command lines.\<close>

theorem validation_exit_codes_witness:
  "\<not> get_configuration (base_args\<lparr>analyzers_list := None\<rparr>)
   \<and> \<not> truthy_list (analyzers_list (base_args\<lparr>analyzers_list := None\<rparr>))
   \<and> \<not> run_all_available_analyzers (base_args\<lparr>analyzers_list := None\<rparr>)
   \<and> intel_owl_client busy_env (base_args\<lparr>analyzers_list := None\<rparr>) () =
        (Exited 2, (),
         [Print ''you must specify at least an analyzer (-a) or every available analyzer (--aa)''])
   \<and> \<not> get_configuration (base_args\<lparr>run_all_available_analyzers := True\<rparr>)
   \<and> truthy_list (analyzers_list (base_args\<lparr>run_all_available_analyzers := True\<rparr>))
   \<and> run_all_available_analyzers (base_args\<lparr>run_all_available_analyzers := True\<rparr>)
   \<and> intel_owl_client busy_env (base_args\<lparr>run_all_available_analyzers := True\<rparr>) () =
        (Exited 3, (), [Print ''you must specify either --aa or -a, not both''])"
  using validation_exit_codes [of "base_args\<lparr>analyzers_list := None\<rparr>" busy_env "()"]
    validation_exit_codes [of "base_args\<lparr>run_all_available_analyzers := True\<rparr>" busy_env "()"]
  by (simp add: base_args_def)

subsection \<open>A file that does not exist\<close>

text \<open>
  Claim C2 as stated fails: with a missing file and without \<^verbatim>\<open>--show-colors\<close> the
  exception is caught by the handler of line 310, the empty results are printed, and the
  function returns, so that the process ends with status 0 and not with a failing code.
\<close>

theorem missing_file_counterexample:
  "intel_owl_client (scripted_env one_file) missing_file_args [] =
     (Returned, [],
      [Get_logger False None,
       Log Error (Msg_error (File_does_not_exist ''/tmp/missing.bin'') None),
       Log Info (Msg_elapsed_time PNone), Log Info Msg_results, PPrint (PList [])])"
  by (simp add: intel_owl_client_def pyintelowl_logic_def try_body_def prepare_input_def
      epilogue_def present_def missing_file_args_def base_args_def scripted_env_def one_file_def)

text \<open>
  Claim C2, amended.  In file mode with a path that does not exist no call of the facade
  is made; when the command line passes its check the error is logged, and without
  \<^verbatim>\<open>--show-colors\<close> the run goes on to the two final log lines, prints the empty
  results and returns normally.
\<close>

theorem missing_file_falls_through:
  assumes "subcommand a = File_subcommand path" and "fs env path = None"
  shows "api_calls (snd (snd (intel_owl_client env a s))) = []
    \<and> (passes_validation a \<longrightarrow>
         Log Error (Msg_error (File_does_not_exist path) None)
           \<in> set (snd (snd (intel_owl_client env a s)))
         \<and> (\<not> show_colors a \<longrightarrow>
              intel_owl_client env a s =
                (Returned, s,
                 [Get_logger (debug a) (log_to_file a),
                  Log Error (Msg_error (File_does_not_exist path) None),
                  Log Info (Msg_elapsed_time PNone), Log Info Msg_results,
                  PPrint (PList [])])))"
proof -
  have prep: "prepare_input env a = (Inl (IntelOwlClientException (File_does_not_exist path)), [])"
    using assms by (simp add: prepare_input_def)
  have body: "try_body env a s =
      (Raised (IntelOwlClientException (File_does_not_exist path)),
       \<lparr>l_md5 = None, l_results = PList [], l_elapsed_time = PNone,
        l_subcommand = subcommand a\<rparr>, s, [])"
    by (simp add: try_body_def prep assms(1))
  have logic: "pyintelowl_logic env a s =
      (fst (present env (show_colors a) (subcommand a) (PList [])), s,
       [Log Error (Msg_error (File_does_not_exist path) None),
        Log Info (Msg_elapsed_time PNone), Log Info Msg_results]
       @ snd (present env (show_colors a) (subcommand a) (PList [])))"
    by (simp add: pyintelowl_logic_def body epilogue_def split: prod.splits)
  have "api_calls (snd (snd (intel_owl_client env a s))) = []"
    using present_quiet[of env "show_colors a" "subcommand a" "PList []"]
    by (simp add: intel_owl_client_def logic api_calls_def)
  moreover have "passes_validation a \<Longrightarrow>
      Log Error (Msg_error (File_does_not_exist path) None)
        \<in> set (snd (snd (intel_owl_client env a s)))"
    by (auto simp: intel_owl_client_def logic passes_validation_def)
  moreover have "passes_validation a \<Longrightarrow> \<not> show_colors a \<Longrightarrow>
      intel_owl_client env a s =
        (Returned, s,
         [Get_logger (debug a) (log_to_file a),
          Log Error (Msg_error (File_does_not_exist path) None),
          Log Info (Msg_elapsed_time PNone), Log Info Msg_results,
          PPrint (PList [])])"
    by (auto simp: intel_owl_client_def logic passes_validation_def present_def)
  ultimately show ?thesis by blast
qed

text \<open>The amended C2 on a concrete command line.\<close>

theorem missing_file_falls_through_witness:
  "subcommand missing_file_args = File_subcommand ''/tmp/missing.bin''
   \<and> fs (scripted_env one_file) ''/tmp/missing.bin'' = None
   \<and> passes_validation missing_file_args \<and> \<not> show_colors missing_file_args
   \<and> api_calls (snd (snd (intel_owl_client (scripted_env one_file) missing_file_args []))) = []
   \<and> Log Error (Msg_error (File_does_not_exist ''/tmp/missing.bin'') None)
       \<in> set (snd (snd (intel_owl_client (scripted_env one_file) missing_file_args [])))
   \<and> fst (intel_owl_client (scripted_env one_file) missing_file_args []) = Returned"
proof -
  have h: "subcommand missing_file_args = File_subcommand ''/tmp/missing.bin''"
    "fs (scripted_env one_file) ''/tmp/missing.bin'' = None"
    "passes_validation missing_file_args" "\<not> show_colors missing_file_args"
    by (simp_all add: missing_file_args_def base_args_def scripted_env_def one_file_def
        passes_validation_def)
  from missing_file_falls_through [OF h(1,2), of "[]"] h show ?thesis by (simp add: api_calls_def)
qed


subsection \<open>Colours in file mode\<close>

text \<open>
  Claim C10.  In file mode with \<^verbatim>\<open>--show-colors\<close> every run that passes the check of
  the command line ends with an uncaught \<^verbatim>\<open>AttributeError\<close>, raised by the read of
  \<^verbatim>\<open>args.value\<close> in the presentation: the last event is the log line that precedes
  the presentation, whatever the analysis did.
\<close>

theorem colors_in_file_mode:
  assumes "show_colors a" and "subcommand a = File_subcommand path" and "passes_validation a"
  shows "fst (intel_owl_client env a s) = Uncaught AttributeError
    \<and> last (snd (snd (intel_owl_client env a s))) = Log Info Msg_results"
proof -
  obtain out s' evs where run: "intel_owl_client env a s = (out, s', evs)"
    by (cases "intel_owl_client env a s")
  have ep: "epilogue env a r l = (Uncaught AttributeError,
       handlers r (l_md5 l) @ [Log Info (Msg_elapsed_time (l_elapsed_time l)), Log Info Msg_results])"
    if "l_subcommand l = File_subcommand path" for r l
    using that assms(1) by (simp add: epilogue_def present_def)
  from run have "out = Uncaught AttributeError \<and> last evs = Log Info Msg_results"
  proof (cases rule: client_cases)
    case (rejected msg)
    with assms(3) show ?thesis by simp
  next
    case (prepare_raised e evs0 l)
    then show ?thesis using ep[of l "Raised e"] assms(2) by simp
  next
    case (configs_raised p evs0 e evs1 l)
    then show ?thesis using assms(2)
      by (auto simp: prepare_input_def split: option.splits fs_node.splits)
  next
    case (configs_exit p evs0 evs1)
    then show ?thesis using assms(2)
      by (auto simp: prepare_input_def split: option.splits fs_node.splits)
  next
    case (analysed p evs0 raised results elapsed_time evsa r l)
    from analysed(2) assms(2) have "p_subcommand p = File_subcommand path"
      by (auto simp: prepare_input_def split: option.splits fs_node.splits)
    with analysed show ?thesis using ep[of l r] by simp
  qed
  with run show ?thesis by simp
qed

text \<open>C10 on a concrete command line.\<close>

theorem colors_in_file_mode_witness:
  "show_colors (file_args\<lparr>show_colors := True\<rparr>)
   \<and> subcommand (file_args\<lparr>show_colors := True\<rparr>) = File_subcommand ''/tmp/sample.bin''
   \<and> passes_validation (file_args\<lparr>show_colors := True\<rparr>)
   \<and> fst (intel_owl_client (scripted_env one_file) (file_args\<lparr>show_colors := True\<rparr>) [])
       = Uncaught AttributeError"
proof -
  have h: "show_colors (file_args\<lparr>show_colors := True\<rparr>)"
    "subcommand (file_args\<lparr>show_colors := True\<rparr>) = File_subcommand ''/tmp/sample.bin''"
    "passes_validation (file_args\<lparr>show_colors := True\<rparr>)"
    by (simp_all add: file_args_def base_args_def passes_validation_def)
  from colors_in_file_mode [OF h, of "scripted_env one_file" "[]"] h show ?thesis by simp
qed

subsection \<open>Calls of a whole run\<close>

lemma analysis_calls:
  assumes "analysis env a p s = (st, s', evs)"
  shows "length (filter is_poll (api_calls evs)) \<le> polling_max_tries
     \<and> sleeps evs = replicate (length (filter is_poll (api_calls evs))) polling_interval
     \<and> (\<forall>c\<in>set (api_calls evs). fingerprint_of c = None \<or> fingerprint_of c = Some (p_md5 p))"
proof -
  have av: "filter is_poll (api_calls evs1) = [] \<and> sleeps evs1 = []
      \<and> (\<forall>c\<in>set (api_calls evs1). fingerprint_of c = Some (p_md5 p))"
    if "ask_analysis_availability env a (p_md5 p) s = (r1, s1, evs1)" for r1 s1 evs1
    using that
    by (auto simp: ask_analysis_availability_def api_calls_def Let_def
        split: prod.splits sum.splits if_splits)
  have se: "filter is_poll (api_calls evs2) = [] \<and> sleeps evs2 = []
      \<and> (\<forall>c\<in>set (api_calls evs2). fingerprint_of c = Some (p_md5 p))"
    if "send_analysis_request env a p s1 = (r2, s2, evs2)" for r2 s1 s2 evs2
    using that
    by (auto simp: send_analysis_request_def api_calls_def submission_call_def
        split: prod.splits sum.splits subcommand.splits dest: submission_answer_quiet)
  have po: "length (filter is_poll (api_calls evs3)) \<le> polling_max_tries
      \<and> sleeps evs3 = replicate (length (filter is_poll (api_calls evs3))) polling_interval
      \<and> (\<forall>c\<in>set (api_calls evs3). fingerprint_of c = None)"
    if "polling env a (p_md5 p) job s2 = (st, s', evs3)" for job s2 evs3
    using polling_calls[OF that] by auto
  from assms show ?thesis
  proof (cases rule: analysis_cases)
    case (avail_raised e)
    with av show ?thesis by fastforce
  next
    case (reused job s1 evs1 evs3)
    with av[OF reused(1)] po[OF reused(2)] show ?thesis by auto
  next
    case (send_raised job0 s1 evs1 e evs2)
    with av[OF send_raised(1)] se[OF send_raised(2)] show ?thesis by auto
  next
    case (submitted job0 s1 evs1 job s2 evs2 evs3)
    with av[OF submitted(1)] se[OF submitted(2)] po[OF submitted(3)] show ?thesis by auto
  qed
qed

lemma epilogue_calls [simp]:
  "api_calls (snd (epilogue env a r l)) = []" "sleeps (snd (epilogue env a r l)) = []"
  using epilogue_quiet[of env a r l] by (simp_all add: api_calls_def)

lemma prepare_input_calls:
  "prepare_input env a = (r, evs) \<Longrightarrow> api_calls evs = [] \<and> sleeps evs = []"
  using prepare_input_quiet[of env a r evs] by (simp add: api_calls_def)

lemma configs_calls:
  "get_analyzer_configs_only env s = (r, s1, evs) \<Longrightarrow>
   api_calls evs = [Get_analyzer_configs] \<and> sleeps evs = []"
  by (auto simp: get_analyzer_configs_only_def api_calls_def Let_def split: prod.splits sum.splits)

lemma api_calls_simps [simp]:
  "api_calls [] = []" "api_calls (Get_logger d f # evs) = api_calls evs"
  "api_calls (New_client k c i d # evs) = api_calls evs"
  "api_calls (Print m # evs) = api_calls evs"
  by (simp_all add: api_calls_def)

lemma client_calls:
  assumes "intel_owl_client env a s = (out, s', evs)"
  shows "length (filter is_poll (api_calls evs)) \<le> polling_max_tries
     \<and> sleeps evs = replicate (length (filter is_poll (api_calls evs))) polling_interval"
  using assms
proof (cases rule: client_cases)
  case (rejected msg)
  then show ?thesis by simp
next
  case (prepare_raised e evs0 l)
  then show ?thesis using prepare_input_calls[OF prepare_raised(2)] by simp
next
  case (configs_raised p evs0 e evs1 l)
  then show ?thesis
    using prepare_input_calls[OF configs_raised(2)] configs_calls[OF configs_raised(4)] by simp
next
  case (configs_exit p evs0 evs1)
  then show ?thesis
    using prepare_input_calls[OF configs_exit(2)] configs_calls[OF configs_exit(4)] by simp
next
  case (analysed p evs0 raised results elapsed_time evsa r l)
  then show ?thesis
    using prepare_input_calls[OF analysed(2)] analysis_calls[OF analysed(4)] by simp
qed


subsection \<open>The fingerprint\<close>




subsection \<open>The polling loop\<close>

lemma poll_once_status:
  assumes "has_status d status"
  shows "poll_once a md5 j d =
     (if \<not> truthy status
      then Raise (IntelOwlClientException (Without_status ''ask_analysis_result'' (answer_of d)))
      else if status = PStr ''invalid_id'' \<or> status = PStr ''not_available''
      then Raise (IntelOwlClientException (Gave_status status))
      else if status = PStr ''running'' then Continue []
      else if status = PStr ''pending''
      then Continue [Log Warning (Msg_pending j md5 (analyzers_list a))]
      else if terminal_status status
      then Break (field_of d ''results'' (PList []))
             (field_of d ''elapsed_time_in_seconds'' (PList []))
             [Log Info (Msg_finished j md5 status (analyzers_list a))]
      else Continue [])"
  using assms
  by (auto simp: has_status_def poll_once_def errors_of_def answer_of_def field_of_def
      terminal_status_def Let_def split: sum.splits)

lemma polling_loop_step:
  assumes "serve env s (Ask_analysis_result j) = (Inr d, s1)"
  shows "polling_loop env a md5 j (Suc n) s =
     (case poll_once a md5 j d of
        Raise e \<Rightarrow> ((Some e, PList [], PNone), s1,
                    [Sleep polling_interval, Api (Ask_analysis_result j) (Inr d)])
      | Continue logged \<Rightarrow>
          after ([Sleep polling_interval, Api (Ask_analysis_result j) (Inr d)] @ logged)
            (polling_loop env a md5 j n s1)
      | Break results elapsed_time logged \<Rightarrow>
          ((None, results, elapsed_time), s1,
           [Sleep polling_interval, Api (Ask_analysis_result j) (Inr d)] @ logged))"
  using assms by (simp add: Let_def)

text \<open>
  Claim C6.  A run polls at most 1200 times, and sleeps one second before each poll.
  When the first four polls are answered, without errors, with the statuses
  \<^verbatim>\<open>running\<close>, \<^verbatim>\<open>running\<close>, \<^verbatim>\<open>pending\<close> and \<^verbatim>\<open>reported_without_fails\<close>, the
  fourth with non-empty results, the polling step makes exactly these four calls and
  completes with the results and the elapsed time of the fourth answer.
\<close>

theorem polling_bounded_and_four_tries:
  "length (filter is_poll (api_calls (snd (snd (intel_owl_client env a s))))) \<le> 1200
   \<and> sleeps (snd (snd (intel_owl_client env a s)))
       = replicate (length (filter is_poll (api_calls (snd (snd (intel_owl_client env a s)))))) 1
   \<and> (serve env s0 (Ask_analysis_result j) = (Inr r1, s1) \<and> has_status r1 (PStr ''running'')
       \<and> serve env s1 (Ask_analysis_result j) = (Inr r2, s2) \<and> has_status r2 (PStr ''running'')
       \<and> serve env s2 (Ask_analysis_result j) = (Inr r3, s3) \<and> has_status r3 (PStr ''pending'')
       \<and> serve env s3 (Ask_analysis_result j) = (Inr r4, s4)
       \<and> has_status r4 (PStr ''reported_without_fails'')
       \<and> truthy (field_of r4 ''results'' (PList []))
      \<longrightarrow> polling env a md5 j s0 =
            ((None, field_of r4 ''results'' (PList []),
              field_of r4 ''elapsed_time_in_seconds'' (PList [])), s4,
             [Log Info Msg_started_polling,
              Sleep 1, Api (Ask_analysis_result j) (Inr r1),
              Sleep 1, Api (Ask_analysis_result j) (Inr r2),
              Sleep 1, Api (Ask_analysis_result j) (Inr r3),
              Log Warning (Msg_pending j md5 (analyzers_list a)),
              Sleep 1, Api (Ask_analysis_result j) (Inr r4),
              Log Info (Msg_finished j md5 (PStr ''reported_without_fails'')
                          (analyzers_list a))]))"
proof -
  obtain out s' evs where run: "intel_owl_client env a s = (out, s', evs)"
    by (cases "intel_owl_client env a s")
  have bound: "length (filter is_poll (api_calls evs)) \<le> 1200
     \<and> sleeps evs = replicate (length (filter is_poll (api_calls evs))) 1"
    using client_calls[OF run] by (simp add: polling_max_tries_def polling_interval_def)
  have four: "polling env a md5 j s0 =
            ((None, field_of r4 ''results'' (PList []),
              field_of r4 ''elapsed_time_in_seconds'' (PList [])), s4,
             [Log Info Msg_started_polling,
              Sleep 1, Api (Ask_analysis_result j) (Inr r1),
              Sleep 1, Api (Ask_analysis_result j) (Inr r2),
              Sleep 1, Api (Ask_analysis_result j) (Inr r3),
              Log Warning (Msg_pending j md5 (analyzers_list a)),
              Sleep 1, Api (Ask_analysis_result j) (Inr r4),
              Log Info (Msg_finished j md5 (PStr ''reported_without_fails'')
                          (analyzers_list a))])"
    if h: "serve env s0 (Ask_analysis_result j) = (Inr r1, s1)" "has_status r1 (PStr ''running'')"
      "serve env s1 (Ask_analysis_result j) = (Inr r2, s2)" "has_status r2 (PStr ''running'')"
      "serve env s2 (Ask_analysis_result j) = (Inr r3, s3)" "has_status r3 (PStr ''pending'')"
      "serve env s3 (Ask_analysis_result j) = (Inr r4, s4)"
      "has_status r4 (PStr ''reported_without_fails'')"
      "truthy (field_of r4 ''results'' (PList []))"
  proof -
    have tries: "polling_max_tries = Suc (Suc (Suc (Suc 1196)))"
      by (simp add: polling_max_tries_def)
    have "polling_loop env a md5 j polling_max_tries s0 =
        ((None, field_of r4 ''results'' (PList []),
          field_of r4 ''elapsed_time_in_seconds'' (PList [])), s4,
         [Sleep 1, Api (Ask_analysis_result j) (Inr r1),
          Sleep 1, Api (Ask_analysis_result j) (Inr r2),
          Sleep 1, Api (Ask_analysis_result j) (Inr r3),
          Log Warning (Msg_pending j md5 (analyzers_list a)),
          Sleep 1, Api (Ask_analysis_result j) (Inr r4),
          Log Info (Msg_finished j md5 (PStr ''reported_without_fails'') (analyzers_list a))])"
      unfolding tries
      by (simp only: polling_loop_step[OF h(1)] polling_loop_step[OF h(3)]
            polling_loop_step[OF h(5)] polling_loop_step[OF h(7)]
            poll_once_status[OF h(2)] poll_once_status[OF h(4)]
            poll_once_status[OF h(6)] poll_once_status[OF h(8)])
         (simp add: after_def terminal_status_def polling_interval_def)
    with h(9) show ?thesis by (simp add: polling_def)
  qed
  from bound four run show ?thesis by simp
qed


text \<open>C6 on a service scripted with these four answers.\<close>

theorem polling_bounded_and_four_tries_witness:
  "serve (scripted_env one_file)
        [envelope (PList []) [(''status'', PStr ''running'')],
         envelope (PList []) [(''status'', PStr ''running'')],
         envelope (PList []) [(''status'', PStr ''pending'')],
         envelope (PList []) [(''status'', PStr ''reported_without_fails''),
                              (''results'', PList [PStr ''clean''])]]
        (Ask_analysis_result (PInt 7))
     = (envelope (PList []) [(''status'', PStr ''running'')],
        [envelope (PList []) [(''status'', PStr ''running'')],
         envelope (PList []) [(''status'', PStr ''pending'')],
         envelope (PList []) [(''status'', PStr ''reported_without_fails''),
                              (''results'', PList [PStr ''clean''])]])
   \<and> has_status [(''errors'', PList []), (''answer'', PDict [(''status'', PStr ''running'')])]
        (PStr ''running'')
   \<and> has_status [(''errors'', PList []), (''answer'', PDict [(''status'', PStr ''pending'')])]
        (PStr ''pending'')
   \<and> has_status [(''errors'', PList []),
                  (''answer'', PDict [(''status'', PStr ''reported_without_fails''),
                                      (''results'', PList [PStr ''clean''])])]
        (PStr ''reported_without_fails'')
   \<and> fst (polling (scripted_env one_file) file_args (Some ''md5:MZ'') (PInt 7)
        [envelope (PList []) [(''status'', PStr ''running'')],
         envelope (PList []) [(''status'', PStr ''running'')],
         envelope (PList []) [(''status'', PStr ''pending'')],
         envelope (PList []) [(''status'', PStr ''reported_without_fails''),
                              (''results'', PList [PStr ''clean''])]])
     = (None, PList [PStr ''clean''], PList [])"
proof -
  define running where "running = [(''errors'', PList []), (''answer'', PDict [(''status'', PStr ''running'')])]"
  define pending where "pending = [(''errors'', PList []), (''answer'', PDict [(''status'', PStr ''pending'')])]"
  define reported where "reported = [(''errors'', PList []),
      (''answer'', PDict [(''status'', PStr ''reported_without_fails''),
                          (''results'', PList [PStr ''clean''])])]"
  have h: "serve (scripted_env one_file) [Inr running, Inr running, Inr pending, Inr reported]
             (Ask_analysis_result (PInt 7)) = (Inr running, [Inr running, Inr pending, Inr reported])"
    "has_status running (PStr ''running'')"
    "serve (scripted_env one_file) [Inr running, Inr pending, Inr reported]
             (Ask_analysis_result (PInt 7)) = (Inr running, [Inr pending, Inr reported])"
    "serve (scripted_env one_file) [Inr pending, Inr reported]
             (Ask_analysis_result (PInt 7)) = (Inr pending, [Inr reported])"
    "has_status pending (PStr ''pending'')"
    "serve (scripted_env one_file) [Inr reported]
             (Ask_analysis_result (PInt 7)) = (Inr reported, [])"
    "has_status reported (PStr ''reported_without_fails'')"
    "truthy (field_of reported ''results'' (PList []))"
    "field_of reported ''results'' (PList []) = PList [PStr ''clean'']"
    "field_of reported ''elapsed_time_in_seconds'' (PList []) = PList []"
    by (simp_all add: scripted_env_def has_status_def field_of_def errors_of_def answer_of_def
        dict_get_def running_def pending_def reported_def)
  from polling_bounded_and_four_tries
    [of "scripted_env one_file" file_args "[]"
        "[Inr running, Inr running, Inr pending, Inr reported]" "PInt 7" running
        "[Inr running, Inr pending, Inr reported]" running "[Inr pending, Inr reported]"
        pending "[Inr reported]" reported "[]" "Some ''md5:MZ''"]
    h
  show ?thesis
    by (simp add: envelope_def running_def pending_def reported_def)
qed

subsection \<open>Reusing an available analysis\<close>

lemma availability_available:
  assumes "\<not> skip_check_analysis_availability a"
    and "serve env s (Ask_analysis_availability md5 (analyzers_list a)
           (run_all_available_analyzers a) (check_reported_analysis_too a)) = (Inr r, s1)"
    and "has_status r status" and "truthy status" and "status \<noteq> PStr ''not_available''"
    and "truthy (field_of r ''job_id'' (PStr []))"
  shows "ask_analysis_availability env a md5 s =
     (Inr (True, field_of r ''job_id'' (PStr [])), s1,
      [Log Info (Msg_started_availability md5 (analyzers_list a)),
       Api (Ask_analysis_availability md5 (analyzers_list a)
              (run_all_available_analyzers a) (check_reported_analysis_too a)) (Inr r),
       Log Info (Msg_already_existing (field_of r ''job_id'' (PStr [])) md5 status
                   (analyzers_list a))])"
  using assms
  by (auto simp: ask_analysis_availability_def has_status_def field_of_def errors_of_def
      answer_of_def Let_def split: sum.splits)

lemma submission_calls:
  "send_analysis_request env a p s = (r, s1, evs) \<Longrightarrow>
   \<forall>c\<in>set (api_calls evs). is_submission c"
  by (auto simp: send_analysis_request_def api_calls_def submission_call_def
      split: prod.splits sum.splits subcommand.splits dest: submission_answer_quiet)

text \<open>
  Claim C4.  When the run has asked for an available analysis and the answer, without
  errors, has a status other than \<^verbatim>\<open>not_available\<close> and a job id \<open>J\<close>, the calls of
  the run are that one call followed by polls of \<open>J\<close> only, at least one and at most
  1200: nothing is submitted.
\<close>

theorem available_analysis_is_reused:
  assumes "intel_owl_client env a s = (out, s', evs)"
    and "Api (Ask_analysis_availability m al ra cr) (Inr r) \<in> set evs"
    and "has_status r status" and "truthy status" and "status \<noteq> PStr ''not_available''"
    and "field_of r ''job_id'' (PStr []) = J" and "truthy J"
  shows "\<exists>k. 0 < k \<and> k \<le> 1200
     \<and> api_calls evs = Ask_analysis_availability m al ra cr # replicate k (Ask_analysis_result J)"
  using assms(1)
proof (cases rule: client_cases)
  case (rejected msg)
  with assms(2) show ?thesis by simp
next
  case (prepare_raised e evs0 l)
  with assms(2) prepare_input_quiet[OF prepare_raised(2)] epilogue_quiet[of env a "Raised e" l]
  show ?thesis by (simp add: api_events_mem)
next
  case (configs_raised p evs0 e evs1 l)
  with assms(2) prepare_input_quiet[OF configs_raised(2)] epilogue_quiet[of env a "Raised e" l]
    configs_api_events[OF configs_raised(4)]
  show ?thesis by (simp add: api_events_mem)
next
  case (configs_exit p evs0 evs1)
  with assms(2) prepare_input_quiet[OF configs_exit(2)] configs_api_events[OF configs_exit(4)]
  show ?thesis by (simp add: api_events_mem)
next
  case (analysed p evs0 raised results elapsed_time evsa r' l)
  let ?call = "Ask_analysis_availability (p_md5 p) (analyzers_list a)
                 (run_all_available_analyzers a) (check_reported_analysis_too a)"
  from analysed assms(2) prepare_input_quiet[OF analysed(2)] epilogue_quiet[of env a r' l]
  have mem: "(Ask_analysis_availability m al ra cr, Inr r) \<in> set (api_events evsa)"
    by (simp add: api_events_mem)
  have calls: "api_calls evs = api_calls evsa"
    using analysed prepare_input_calls[OF analysed(2)] by simp
  have other: "(Ask_analysis_availability m al ra cr, Inr r) \<notin> set (api_events evs')"
    if "\<forall>c\<in>set (api_calls evs'). is_submission c \<or> is_poll c" for evs'
    using that by (force simp: api_calls_def)
  have send_other: "(Ask_analysis_availability m al ra cr, Inr r) \<notin> set (api_events evs2)"
    if "send_analysis_request env a p s1 = (r2, s2, evs2)" for s1 r2 s2 evs2
    using submission_calls[OF that] other by blast
  have poll_other: "(Ask_analysis_availability m al ra cr, Inr r) \<notin> set (api_events evs3)"
    if "polling env a (p_md5 p) job s2 = (st, s3, evs3)" for job s2 st s3 evs3
    using polling_calls[OF that] other[of evs3] by auto
  obtain r1 s1 evs1 where av: "ask_analysis_availability env a (p_md5 p) s = (r1, s1, evs1)"
    by (cases "ask_analysis_availability env a (p_md5 p) s") auto
  have in1: "(Ask_analysis_availability m al ra cr, Inr r) \<in> set (api_events evs1)"
    using analysed(4) mem av send_other poll_other
    by (cases rule: analysis_cases) auto
  with availability_api_events[OF av]
  have noskip: "\<not> skip_check_analysis_availability a"
    and call: "Ask_analysis_availability m al ra cr = ?call"
    and reply: "fst (serve env s ?call) = Inr r"
    by (auto split: if_splits)
  obtain s1' where serve: "serve env s ?call = (Inr r, s1')"
    using reply by (cases "serve env s ?call") auto
  have av': "ask_analysis_availability env a (p_md5 p) s = (Inr (True, J), s1',
      [Log Info (Msg_started_availability (p_md5 p) (analyzers_list a)),
       Api ?call (Inr r),
       Log Info (Msg_already_existing J (p_md5 p) status (analyzers_list a))])"
    using availability_available[OF noskip serve assms(3,4,5)] assms(6,7) by simp
  from analysed(4) show ?thesis
  proof (cases rule: analysis_cases)
    case (reused job s1 evs1 evs3)
    with av' have "job = J" and evs1: "api_calls evs1 = [?call]" by (simp_all add: api_calls_def)
    from polling_calls[OF reused(2)] obtain k where "0 < k" "k \<le> polling_max_tries"
      "api_calls evs3 = replicate k (Ask_analysis_result job)" by blast
    with calls reused(3) evs1 call \<open>job = J\<close> show ?thesis
      by (auto simp: polling_max_tries_def)
  qed (use av' in simp_all)
qed


text \<open>C4 on a concrete run: the job 7 is found running and is polled.\<close>

theorem available_analysis_is_reused_witness:
  "Api (Ask_analysis_availability (Some ''md5:MZ'') (Some [''Fprot'']) False False)
       (Inr [(''errors'', PList []),
             (''answer'', PDict [(''status'', PStr ''running''), (''job_id'', PInt 7)])])
     \<in> set (snd (snd (intel_owl_client (scripted_env one_file) file_args
          [envelope (PList []) [(''status'', PStr ''running''), (''job_id'', PInt 7)],
           envelope (PList []) [(''status'', PStr ''failed''),
                                (''results'', PList [PStr ''report''])]])))
   \<and> has_status [(''errors'', PList []),
                  (''answer'', PDict [(''status'', PStr ''running''), (''job_id'', PInt 7)])]
        (PStr ''running'')
   \<and> truthy (PStr ''running'') \<and> PStr ''running'' \<noteq> PStr ''not_available''
   \<and> field_of [(''errors'', PList []),
                (''answer'', PDict [(''status'', PStr ''running''), (''job_id'', PInt 7)])]
        ''job_id'' (PStr []) = PInt 7
   \<and> truthy (PInt 7)
   \<and> (\<exists>k. 0 < k \<and> k \<le> 1200
        \<and> api_calls (snd (snd (intel_owl_client (scripted_env one_file) file_args
            [envelope (PList []) [(''status'', PStr ''running''), (''job_id'', PInt 7)],
             envelope (PList []) [(''status'', PStr ''failed''),
                                  (''results'', PList [PStr ''report''])]])))
          = Ask_analysis_availability (Some ''md5:MZ'') (Some [''Fprot'']) False False
            # replicate k (Ask_analysis_result (PInt 7)))"
proof -
  define avail where "avail = [(''errors'', PList []),
             (''answer'', PDict [(''status'', PStr ''running''), (''job_id'', PInt 7)])]"
  define script where "script =
          [envelope (PList []) [(''status'', PStr ''running''), (''job_id'', PInt 7)],
           envelope (PList []) [(''status'', PStr ''failed''),
                                (''results'', PList [PStr ''report''])]]"
  obtain out s' evs where run: "intel_owl_client (scripted_env one_file) file_args script = (out, s', evs)"
    by (cases "intel_owl_client (scripted_env one_file) file_args script")
  have mem: "Api (Ask_analysis_availability (Some ''md5:MZ'') (Some [''Fprot'']) False False)
       (Inr avail) \<in> set (snd (snd (intel_owl_client (scripted_env one_file) file_args script)))"
    unfolding avail_def script_def by code_simp
  have h: "has_status avail (PStr ''running'')" "truthy (PStr ''running'')"
    "PStr ''running'' \<noteq> PStr ''not_available''"
    "field_of avail ''job_id'' (PStr []) = PInt 7" "truthy (PInt 7)"
    by (simp_all add: has_status_def field_of_def errors_of_def answer_of_def dict_get_def avail_def)
  from available_analysis_is_reused [OF run _ h] mem run h
  show ?thesis
    unfolding avail_def script_def by simp
qed

subsection \<open>A submission that is not accepted\<close>

lemma submission_refused:
  assumes "send_analysis_request env a p s1 = (r2, s2, evs2)"
    and "(c, Inr r) \<in> set (api_events evs2)"
    and "as_dict (answer_of r) = Inr d" and "dict_get d ''status'' PNone \<noteq> PStr ''accepted''"
  shows "\<exists>e. r2 = Inl (IntelOwlClientException e)"
  using assms
  by (auto simp: send_analysis_request_def submission_answer_def answer_of_def Let_def
      split: prod.splits sum.splits if_splits)

lemma epilogue_snd:
  "snd (epilogue env a r l) =
     handlers r (l_md5 l)
     @ [Log Info (Msg_elapsed_time (l_elapsed_time l)), Log Info Msg_results]
     @ snd (present env (show_colors a) (l_subcommand l) (l_results l))"
  by (simp add: epilogue_def split: prod.splits)

lemma epilogue_fst:
  "fst (epilogue env a r l) = fst (present env (show_colors a) (l_subcommand l) (l_results l))"
  by (simp add: epilogue_def split: prod.splits)

lemma submission_is_no_poll: "is_submission c \<Longrightarrow> \<not> is_poll c"
  by (cases c) simp_all

lemma availability_no_poll:
  "ask_analysis_availability env a md5 s = (r1, s1, evs1) \<Longrightarrow>
   filter is_poll (api_calls evs1) = []"
  by (auto dest!: availability_api_events simp: api_calls_def split: if_splits)

lemma submission_no_poll:
  "send_analysis_request env a p s = (r, s1, evs) \<Longrightarrow> filter is_poll (api_calls evs) = []"
  using submission_calls[of env a p s r s1 evs] submission_is_no_poll
  by (auto simp: filter_empty_conv)

lemma not_started_polling:
  "prepare_input env a = (r0, evs0) \<Longrightarrow> Log Info Msg_started_polling \<notin> set evs0"
  "ask_analysis_availability env a md5 s = (r1, s1, evs1) \<Longrightarrow>
     Log Info Msg_started_polling \<notin> set evs1"
  "send_analysis_request env a p s1 = (r2, s2, evs2) \<Longrightarrow>
     Log Info Msg_started_polling \<notin> set evs2"
  "get_analyzer_configs_only env s = (r3, s3, evs3) \<Longrightarrow>
     Log Info Msg_started_polling \<notin> set evs3"
  "Log Info Msg_started_polling \<notin> set (snd (epilogue env a r l))"
proof -
  show "prepare_input env a = (r0, evs0) \<Longrightarrow> Log Info Msg_started_polling \<notin> set evs0"
    by (auto simp: prepare_input_def
      split: subcommand.splits option.splits fs_node.splits sum.splits if_splits)
  show "ask_analysis_availability env a md5 s = (r1, s1, evs1) \<Longrightarrow>
     Log Info Msg_started_polling \<notin> set evs1"
    by (auto simp: ask_analysis_availability_def Let_def split: prod.splits sum.splits if_splits)
  show "send_analysis_request env a p s1 = (r2, s2, evs2) \<Longrightarrow>
     Log Info Msg_started_polling \<notin> set evs2"
    by (auto simp: send_analysis_request_def submission_answer_def Let_def
        split: prod.splits sum.splits if_splits)
  show "get_analyzer_configs_only env s = (r3, s3, evs3) \<Longrightarrow>
     Log Info Msg_started_polling \<notin> set evs3"
    by (auto simp: get_analyzer_configs_only_def Let_def split: prod.splits sum.splits if_splits)
  have "Log Info Msg_started_polling \<notin> set (handlers r md5)" for md5
    by (cases "(r, md5)" rule: handlers.cases) auto
  moreover have "Log Info Msg_started_polling \<notin> set (snd (present env c sub rs))" for c sub rs
    by (auto simp: present_def Let_def split: sum.splits option.splits)
  ultimately show "Log Info Msg_started_polling \<notin> set (snd (epilogue env a r l))"
    by (simp add: epilogue_snd)
qed

lemma not_submission:
  assumes "is_submission c"
  shows "ask_analysis_availability env a md5 s = (r1, s1, evs1) \<Longrightarrow>
      (c, r) \<notin> set (api_events evs1)"
    and "polling env a md5 job s2 = (st, s3, evs3) \<Longrightarrow> (c, r) \<notin> set (api_events evs3)"
    and "get_analyzer_configs_only env s = (r4, s4, evs4) \<Longrightarrow> (c, r) \<notin> set (api_events evs4)"
proof -
  show "ask_analysis_availability env a md5 s = (r1, s1, evs1) \<Longrightarrow>
      (c, r) \<notin> set (api_events evs1)"
    using assms by (auto dest!: availability_api_events split: if_splits)
  show "get_analyzer_configs_only env s = (r4, s4, evs4) \<Longrightarrow> (c, r) \<notin> set (api_events evs4)"
    using assms by (auto dest!: configs_api_events)
  show "polling env a md5 job s2 = (st, s3, evs3) \<Longrightarrow> (c, r) \<notin> set (api_events evs3)"
  proof
    assume run: "polling env a md5 job s2 = (st, s3, evs3)" and "(c, r) \<in> set (api_events evs3)"
    then have "c \<in> set (api_calls evs3)" by (force simp: api_calls_def)
    with polling_calls[OF run] assms show False by auto
  qed
qed

text \<open>
  Claim C5.  When the run has submitted an analysis and the answer is a dictionary whose
  status is not \<^verbatim>\<open>accepted\<close> (or is missing), the client exception is raised and
  logged by its handler, the polling loop is not entered, and no poll is made.
\<close>

theorem refused_submission_aborts:
  assumes "intel_owl_client env a s = (out, s', evs)"
    and "Api c (Inr r) \<in> set evs" and "is_submission c"
    and "as_dict (answer_of r) = Inr d" and "dict_get d ''status'' PNone \<noteq> PStr ''accepted''"
  shows "(\<exists>e md5. Log Error (Msg_error e md5) \<in> set evs)
     \<and> Log Info Msg_started_polling \<notin> set evs
     \<and> filter is_poll (api_calls evs) = []"
  using assms(1)
proof (cases rule: client_cases)
  case (rejected msg)
  with assms(2) show ?thesis by simp
next
  case (prepare_raised e evs0 l)
  with assms(2) prepare_input_quiet[OF prepare_raised(2)] epilogue_quiet[of env a "Raised e" l]
  show ?thesis by (simp add: api_events_mem)
next
  case (configs_raised p evs0 e evs1 l)
  with assms(2,3) prepare_input_quiet[OF configs_raised(2)] epilogue_quiet[of env a "Raised e" l]
    not_submission(3)[OF assms(3) configs_raised(4)]
  show ?thesis by (simp add: api_events_mem)
next
  case (configs_exit p evs0 evs1)
  with assms(2) prepare_input_quiet[OF configs_exit(2)]
    not_submission(3)[OF assms(3) configs_exit(4)]
  show ?thesis by (simp add: api_events_mem)
next
  case (analysed p evs0 raised results elapsed_time evsa r' l)
  from analysed assms(2) prepare_input_quiet[OF analysed(2)] epilogue_quiet[of env a r' l]
  have mem: "(c, Inr r) \<in> set (api_events evsa)"
    by (simp add: api_events_mem)
  have calls: "api_calls evs = api_calls evsa"
    using analysed prepare_input_calls[OF analysed(2)] by simp
  have quiet: "Log Info Msg_started_polling \<in> set evs \<longleftrightarrow> Log Info Msg_started_polling \<in> set evsa"
    using analysed not_started_polling(1)[OF analysed(2)] not_started_polling(5)[of env a r' l]
    by auto
  from analysed(4) show ?thesis
  proof (cases rule: analysis_cases)
    case (avail_raised e)
    with mem not_submission(1)[OF assms(3) avail_raised(1)] show ?thesis by simp
  next
    case (reused job s1 evs1 evs3)
    with mem not_submission(1)[OF assms(3) reused(1)] not_submission(2)[OF assms(3) reused(2)]
    show ?thesis by simp
  next
    case (send_raised job0 s1 evs1 e evs2)
    with mem not_submission(1)[OF assms(3) send_raised(1)]
    have in2: "(c, Inr r) \<in> set (api_events evs2)" by simp
    from submission_refused[OF send_raised(2) in2 assms(4,5)]
    obtain ce where e: "e = IntelOwlClientException ce" by auto
    have "Log Error (Msg_error ce (p_md5 p)) \<in> set evs"
      using analysed send_raised(3) e by (simp add: epilogue_snd)
    moreover have "Log Info Msg_started_polling \<notin> set evs"
      using quiet send_raised(4) not_started_polling(2)[OF send_raised(1)]
        not_started_polling(3)[OF send_raised(2)] by simp
    moreover have "filter is_poll (api_calls evs) = []"
      using calls send_raised(4) submission_no_poll[OF send_raised(2)]
        availability_no_poll[OF send_raised(1)]
      by simp
    ultimately show ?thesis by blast
  next
    case (submitted job0 s1 evs1 job s2 evs2 evs3)
    with mem not_submission(1)[OF assms(3) submitted(1)] not_submission(2)[OF assms(3) submitted(3)]
    have in2: "(c, Inr r) \<in> set (api_events evs2)" by simp
    from submission_refused[OF submitted(2) in2 assms(4,5)] show ?thesis by simp
  qed
qed


text \<open>C5 on a concrete run: the submission is answered with the status \<^verbatim>\<open>queued\<close>.\<close>

theorem refused_submission_aborts_witness:
  "Api (Send_observable_analysis_request (Some ''md5:example.com'') (Some [''Fprot''])
          (str_of ''example.com'') False False False False)
       (Inr [(''errors'', PList []),
             (''answer'', PDict [(''status'', PStr ''queued''), (''job_id'', PInt 7)])])
     \<in> set (snd (snd (intel_owl_client (scripted_env one_file) observable_args
          [envelope (PList []) [(''status'', PStr ''not_available'')],
           envelope (PList []) [(''status'', PStr ''queued''), (''job_id'', PInt 7)]])))
   \<and> is_submission (Send_observable_analysis_request (Some ''md5:example.com'')
        (Some [''Fprot'']) (str_of ''example.com'') False False False False)
   \<and> as_dict (answer_of [(''errors'', PList []),
             (''answer'', PDict [(''status'', PStr ''queued''), (''job_id'', PInt 7)])])
       = Inr [(''status'', PStr ''queued''), (''job_id'', PInt 7)]
   \<and> dict_get [(''status'', PStr ''queued''), (''job_id'', PInt 7)] ''status'' PNone
       \<noteq> PStr ''accepted''
   \<and> Log Info Msg_started_polling
       \<notin> set (snd (snd (intel_owl_client (scripted_env one_file) observable_args
          [envelope (PList []) [(''status'', PStr ''not_available'')],
           envelope (PList []) [(''status'', PStr ''queued''), (''job_id'', PInt 7)]])))
   \<and> filter is_poll (api_calls (snd (snd (intel_owl_client (scripted_env one_file)
          observable_args
          [envelope (PList []) [(''status'', PStr ''not_available'')],
           envelope (PList []) [(''status'', PStr ''queued''), (''job_id'', PInt 7)]])))) = []"
proof -
  define script where "script =
          [envelope (PList []) [(''status'', PStr ''not_available'')],
           envelope (PList []) [(''status'', PStr ''queued''), (''job_id'', PInt 7)]]"
  define c where "c = Send_observable_analysis_request (Some ''md5:example.com'')
        (Some [''Fprot'']) (str_of ''example.com'') False False False False"
  define r where "r = [(''errors'', PList []),
             (''answer'', PDict [(''status'', PStr ''queued''), (''job_id'', PInt 7)])]"
  obtain out s' evs where
    run: "intel_owl_client (scripted_env one_file) observable_args script = (out, s', evs)"
    by (cases "intel_owl_client (scripted_env one_file) observable_args script")
  have mem: "Api c (Inr r)
      \<in> set (snd (snd (intel_owl_client (scripted_env one_file) observable_args script)))"
    unfolding c_def r_def script_def by code_simp
  have h: "is_submission c"
    "as_dict (answer_of r) = Inr [(''status'', PStr ''queued''), (''job_id'', PInt 7)]"
    "dict_get [(''status'', PStr ''queued''), (''job_id'', PInt 7)] ''status'' PNone
       \<noteq> PStr ''accepted''"
    by (simp_all add: c_def r_def answer_of_def dict_get_def)
  from refused_submission_aborts [OF run _ h] mem run h
  show ?thesis
    unfolding c_def r_def script_def by simp
qed

subsection \<open>The answer that ends the loop\<close>

lemma polling_loop_event:
  "polling_loop env a md5 j n s = (st, s1, evs) \<Longrightarrow> (c, Inr d) \<in> set (api_events evs) \<Longrightarrow>
   c = Ask_analysis_result j \<and>
   (case poll_once a md5 j d of
      Raise e \<Rightarrow> st = (Some e, PList [], PNone) \<and> (\<exists>pre. evs = pre @ [Api c (Inr d)])
    | Break rs el lg \<Rightarrow> st = (None, rs, el) \<and> (\<exists>pre. evs = pre @ Api c (Inr d) # lg)
    | Continue lg \<Rightarrow> True)"
proof (induction n arbitrary: s st s1 evs)
  case 0
  then show ?case by simp
next
  case (Suc n)
  obtain reply s' where serve: "serve env s (Ask_analysis_result j) = (reply, s')"
    by (cases "serve env s (Ask_analysis_result j)")
  let ?pre = "[Sleep polling_interval, Api (Ask_analysis_result j) reply]"
  show ?case
  proof (cases reply)
    case (Inl e)
    with Suc.prems serve show ?thesis by auto
  next
    case (Inr d')
    show ?thesis
    proof (cases "poll_once a md5 j d'")
      case (Raise e)
      with Suc.prems serve Inr have "evs = ?pre" "st = (Some e, PList [], PNone)" by auto
      with Suc.prems(2) Inr Raise show ?thesis
        by (auto intro: exI[of _ "[Sleep polling_interval]"])
    next
      case (Break rs el lg)
      with Suc.prems serve Inr have "evs = ?pre @ lg" "st = (None, rs, el)" by auto
      with Suc.prems(2) Inr Break poll_once_quiet(2)[OF Break] show ?thesis
        by (auto intro: exI[of _ "[Sleep polling_interval]"])
    next
      case (Continue lg)
      obtain st' s'' evs' where rest: "polling_loop env a md5 j n s' = (st', s'', evs')"
        by (cases "polling_loop env a md5 j n s'") auto
      from Suc.prems(1) serve Inr Continue rest
      have evs: "evs = ?pre @ lg @ evs'" and st: "st = st'"
        by (auto simp: after_def)
      from Suc.prems(2) evs poll_once_quiet(1)[OF Continue] Inr
      have "(c, Inr d) = (Ask_analysis_result j, Inr d') \<or> (c, Inr d) \<in> set (api_events evs')"
        by auto
      then show ?thesis
      proof
        assume "(c, Inr d) = (Ask_analysis_result j, Inr d')"
        with Continue show ?thesis by simp
      next
        assume "(c, Inr d) \<in> set (api_events evs')"
        from Suc.IH[OF rest this] show ?thesis
          unfolding evs st
          by (auto split: poll_action.splits intro: exI[of _ "?pre @ lg @ pre" for pre])
      qed
    qed
  qed
qed

lemma polling_event:
  assumes "polling env a md5 j s = (st, s1, evs)" and "(c, Inr d) \<in> set (api_events evs)"
  shows "c = Ask_analysis_result j \<and>
   (case poll_once a md5 j d of
      Raise e \<Rightarrow> st = (Some e, PList [], PNone) \<and> (\<exists>pre. evs = pre @ [Api c (Inr d)])
    | Break rs el lg \<Rightarrow>
        st = (if truthy rs then None
              else Some (IntelOwlClientException (Polling_timeout j)), rs, el)
        \<and> (\<exists>pre. evs = pre @ Api c (Inr d) # lg)
    | Continue lg \<Rightarrow> True)"
proof -
  obtain st' s' evs' where loop: "polling_loop env a md5 j polling_max_tries s = (st', s', evs')"
    by (cases "polling_loop env a md5 j polling_max_tries s") auto
  from assms(1) loop have evs: "evs = Log Info Msg_started_polling # evs'"
    by (auto simp: polling_def split: prod.splits option.splits if_splits)
  with assms(2) have mem: "(c, Inr d) \<in> set (api_events evs')" by simp
  from polling_loop_event[OF loop mem] assms(1) loop show ?thesis
    unfolding evs
    by (auto simp: polling_def split: poll_action.splits
        intro: exI[of _ "Log Info Msg_started_polling # pre" for pre])
qed

subsection \<open>An envelope with errors\<close>










subsection \<open>Polls of a whole run\<close>

lemma analysis_poll_event:
  assumes "analysis env a p s = (st, s', evsa)"
    and "(c, r) \<in> set (api_events evsa)" and "is_poll c"
  obtains job s2 pre evs3 where "polling env a (p_md5 p) job s2 = (st, s', evs3)"
    and "evsa = pre @ evs3" and "(c, r) \<in> set (api_events evs3)"
    and "filter is_poll (api_calls pre) = []"
    and "Log Info Msg_started_polling \<notin> set pre"
proof -
  have no1: "(c, r) \<notin> set (api_events evs1)"
    if "ask_analysis_availability env a (p_md5 p) s = (r1, s1, evs1)" for r1 s1 evs1
    using availability_no_poll[OF that] assms(3)
    by (force simp: api_calls_def filter_empty_conv)
  have no2: "(c, r) \<notin> set (api_events evs2)"
    if "send_analysis_request env a p s1 = (r2, s2, evs2)" for s1 r2 s2 evs2
    using submission_no_poll[OF that] assms(3)
    by (force simp: api_calls_def filter_empty_conv)
  from assms(1) show ?thesis
  proof (cases rule: analysis_cases)
    case (avail_raised e)
    with assms(2) no1 show ?thesis by blast
  next
    case (reused job s1 evs1 evs3)
    with assms(2) no1[OF reused(1)] have "(c, r) \<in> set (api_events evs3)" by simp
    with that[OF reused(2,3)] availability_no_poll[OF reused(1)]
      not_started_polling(2)[OF reused(1)]
    show ?thesis by blast
  next
    case (send_raised job0 s1 evs1 e evs2)
    with assms(2) no1[OF send_raised(1)] no2[OF send_raised(2)] show ?thesis by simp
  next
    case (submitted job0 s1 evs1 job s2 evs2 evs3)
    with assms(2) no1[OF submitted(1)] no2[OF submitted(2)]
    have "(c, r) \<in> set (api_events evs3)" by simp
    moreover have "evsa = (evs1 @ evs2) @ evs3" using submitted(4) by simp
    moreover have "filter is_poll (api_calls (evs1 @ evs2)) = []"
      using availability_no_poll[OF submitted(1)] submission_no_poll[OF submitted(2)] by simp
    moreover have "Log Info Msg_started_polling \<notin> set (evs1 @ evs2)"
      using not_started_polling(2)[OF submitted(1)] not_started_polling(3)[OF submitted(2)]
      by simp
    ultimately show ?thesis using that[OF submitted(3)] by blast
  qed
qed

lemma client_poll_event:
  assumes "intel_owl_client env a s = (out, s', evs)"
    and "(c, r) \<in> set (api_events evs)" and "is_poll c"
  shows "\<exists>(p::prepared) job s2 pre evs3 raised results elapsed_time.
      polling env a (p_md5 p) job s2 = ((raised, results, elapsed_time), s', evs3)
    \<and> (c, r) \<in> set (api_events evs3)
    \<and> evs = pre @ evs3
               @ snd (epilogue env a (case raised of Some e \<Rightarrow> Raised e | None \<Rightarrow> Completed)
                       \<lparr>l_md5 = p_md5 p, l_results = results, l_elapsed_time = elapsed_time,
                        l_subcommand = p_subcommand p\<rparr>)
    \<and> out = fst (epilogue env a (case raised of Some e \<Rightarrow> Raised e | None \<Rightarrow> Completed)
                       \<lparr>l_md5 = p_md5 p, l_results = results, l_elapsed_time = elapsed_time,
                        l_subcommand = p_subcommand p\<rparr>)
    \<and> filter is_poll (api_calls pre) = []
    \<and> Log Info Msg_started_polling \<notin> set pre"
  using assms(1)
proof (cases rule: client_cases)
  case (rejected msg)
  with assms(2) show ?thesis by simp
next
  case (prepare_raised e evs0 l)
  with assms(2) prepare_input_quiet[OF prepare_raised(2)] epilogue_quiet[of env a "Raised e" l]
  show ?thesis by simp
next
  case (configs_raised p evs0 e evs1 l)
  with assms(2,3) prepare_input_quiet[OF configs_raised(2)]
    epilogue_quiet[of env a "Raised e" l] configs_api_events[OF configs_raised(4)]
  show ?thesis by auto
next
  case (configs_exit p evs0 evs1)
  with assms(2,3) prepare_input_quiet[OF configs_exit(2)] configs_api_events[OF configs_exit(4)]
  show ?thesis by auto
next
  case (analysed p evs0 raised results elapsed_time evsa r' l)
  from analysed assms(2) prepare_input_quiet[OF analysed(2)] epilogue_quiet[of env a r' l]
  have mem: "(c, r) \<in> set (api_events evsa)" by simp
  from analysed(4) mem assms(3) obtain job s2 pre evs3 where
    po: "polling env a (p_md5 p) job s2 = ((raised, results, elapsed_time), s', evs3)"
    and evsa: "evsa = pre @ evs3" and in3: "(c, r) \<in> set (api_events evs3)"
    and pre: "filter is_poll (api_calls pre) = []" "Log Info Msg_started_polling \<notin> set pre"
    by (rule analysis_poll_event)
  let ?pre = "Get_logger (debug a) (log_to_file a) # evs0
          @ [New_client (api_key a) (certificate a) (instance_url a) (debug a)] @ pre"
  have "evs = ?pre @ evs3 @ snd (epilogue env a r' l)"
    using analysed(8) evsa by simp
  moreover have "filter is_poll (api_calls ?pre) = []"
    using pre(1) prepare_input_calls[OF analysed(2)] by simp
  moreover have "Log Info Msg_started_polling \<notin> set ?pre"
    using pre(2) not_started_polling(1)[OF analysed(2)] by simp
  ultimately have "polling env a (p_md5 p) job s2 = ((raised, results, elapsed_time), s', evs3)
    \<and> (c, r) \<in> set (api_events evs3)
    \<and> evs = ?pre @ evs3
               @ snd (epilogue env a (case raised of Some e \<Rightarrow> Raised e | None \<Rightarrow> Completed)
                       \<lparr>l_md5 = p_md5 p, l_results = results, l_elapsed_time = elapsed_time,
                        l_subcommand = p_subcommand p\<rparr>)
    \<and> out = fst (epilogue env a (case raised of Some e \<Rightarrow> Raised e | None \<Rightarrow> Completed)
                       \<lparr>l_md5 = p_md5 p, l_results = results, l_elapsed_time = elapsed_time,
                        l_subcommand = p_subcommand p\<rparr>)
    \<and> filter is_poll (api_calls ?pre) = []
    \<and> Log Info Msg_started_polling \<notin> set ?pre"
    using po in3 analysed(7) unfolding analysed(5,6) by simp
  then show ?thesis by blast
qed

subsection \<open>A finished job without results\<close>

lemma terminal_status_simps:
  "terminal_status status \<Longrightarrow> truthy status \<and> status \<noteq> PStr ''invalid_id''
     \<and> status \<noteq> PStr ''not_available'' \<and> status \<noteq> PStr ''running''
     \<and> status \<noteq> PStr ''pending''"
  by (auto simp: terminal_status_def)

text \<open>
  Claim C9.  When a poll of the run is answered, without errors, with one of the three
  terminal statuses and empty or missing results, the loop is left, and the check that
  follows it raises the exception of the polling timeout for the job: the handler logs
  \<open>Polling_timeout\<close>, the same error as after 1200 fruitless tries, and the empty
  results are presented.
\<close>

theorem finished_without_results_is_timeout:
  assumes "intel_owl_client env a s = (out, s', evs)"
    and "Api (Ask_analysis_result j) (Inr r) \<in> set evs"
    and "has_status r status" and "terminal_status status"
    and "\<not> truthy (field_of r ''results'' (PList []))"
  shows "\<exists>pre md5 sub.
      evs = pre @ [Api (Ask_analysis_result j) (Inr r),
                   Log Info (Msg_finished j md5 status (analyzers_list a)),
                   Log Error (Msg_error (Polling_timeout j) md5),
                   Log Info (Msg_elapsed_time (field_of r ''elapsed_time_in_seconds'' (PList []))),
                   Log Info Msg_results]
            @ snd (present env (show_colors a) sub (field_of r ''results'' (PList [])))
      \<and> out = fst (present env (show_colors a) sub (field_of r ''results'' (PList [])))"
proof -
  from assms(2) have mem: "(Ask_analysis_result j, Inr r) \<in> set (api_events evs)"
    by (simp add: api_events_mem)
  from client_poll_event[OF assms(1) mem]
  obtain p :: prepared and job s2 pre evs3 raised results elapsed_time
    where po: "polling env a (p_md5 p) job s2 = ((raised, results, elapsed_time), s', evs3)"
      and in3: "(Ask_analysis_result j, Inr r) \<in> set (api_events evs3)"
      and evs: "evs = pre @ evs3
               @ snd (epilogue env a (case raised of Some e \<Rightarrow> Raised e | None \<Rightarrow> Completed)
                       \<lparr>l_md5 = p_md5 p, l_results = results, l_elapsed_time = elapsed_time,
                        l_subcommand = p_subcommand p\<rparr>)"
      and out: "out = fst (epilogue env a (case raised of Some e \<Rightarrow> Raised e | None \<Rightarrow> Completed)
                       \<lparr>l_md5 = p_md5 p, l_results = results, l_elapsed_time = elapsed_time,
                        l_subcommand = p_subcommand p\<rparr>)"
    by auto
  have once: "poll_once a (p_md5 p) job r =
      Break (field_of r ''results'' (PList [])) (field_of r ''elapsed_time_in_seconds'' (PList []))
        [Log Info (Msg_finished job (p_md5 p) status (analyzers_list a))]"
    using poll_once_status[OF assms(3)] terminal_status_simps[OF assms(4)] assms(4) by simp
  have ev: "Ask_analysis_result j = Ask_analysis_result job
      \<and> (raised, results, elapsed_time)
          = (if truthy (field_of r ''results'' (PList [])) then None
             else Some (IntelOwlClientException (Polling_timeout job)),
             field_of r ''results'' (PList []),
             field_of r ''elapsed_time_in_seconds'' (PList []))
      \<and> (\<exists>pre3. evs3 = pre3 @ Api (Ask_analysis_result j) (Inr r)
                          # [Log Info (Msg_finished job (p_md5 p) status (analyzers_list a))])"
    using polling_event[OF po in3] by (auto simp: once)
  then have job: "job = j" by simp
  from ev assms(5) have st: "raised = Some (IntelOwlClientException (Polling_timeout j))"
      "results = field_of r ''results'' (PList [])"
      "elapsed_time = field_of r ''elapsed_time_in_seconds'' (PList [])"
    by (simp_all add: job)
  from ev obtain pre3 where
    evs3: "evs3 = pre3 @ [Api (Ask_analysis_result j) (Inr r),
                         Log Info (Msg_finished j (p_md5 p) status (analyzers_list a))]"
    unfolding job by blast
  have "evs = (pre @ pre3) @ [Api (Ask_analysis_result j) (Inr r),
                   Log Info (Msg_finished j (p_md5 p) status (analyzers_list a)),
                   Log Error (Msg_error (Polling_timeout j) (p_md5 p)),
                   Log Info (Msg_elapsed_time (field_of r ''elapsed_time_in_seconds'' (PList []))),
                   Log Info Msg_results]
            @ snd (present env (show_colors a) (p_subcommand p)
                     (field_of r ''results'' (PList [])))"
    using evs evs3 st by (simp add: epilogue_snd)
  moreover have "out = fst (present env (show_colors a) (p_subcommand p)
                     (field_of r ''results'' (PList [])))"
    using out st by (simp add: epilogue_fst)
  ultimately show ?thesis by blast
qed

text \<open>C9 on a concrete run: the job 7 is reported as failed, without results.\<close>

theorem finished_without_results_is_timeout_witness:
  "Api (Ask_analysis_result (PInt 7))
       (Inr [(''errors'', PList []), (''answer'', PDict [(''status'', PStr ''failed'')])])
     \<in> set (snd (snd (intel_owl_client (scripted_env one_file) observable_args
          [envelope (PList []) [(''status'', PStr ''running''), (''job_id'', PInt 7)],
           envelope (PList []) [(''status'', PStr ''failed'')]])))
   \<and> has_status [(''errors'', PList []), (''answer'', PDict [(''status'', PStr ''failed'')])]
        (PStr ''failed'')
   \<and> terminal_status (PStr ''failed'')
   \<and> \<not> truthy (field_of [(''errors'', PList []),
                           (''answer'', PDict [(''status'', PStr ''failed'')])]
                  ''results'' (PList []))
   \<and> (\<exists>pre md5 sub.
         snd (snd (intel_owl_client (scripted_env one_file) observable_args
          [envelope (PList []) [(''status'', PStr ''running''), (''job_id'', PInt 7)],
           envelope (PList []) [(''status'', PStr ''failed'')]]))
         = pre @ [Api (Ask_analysis_result (PInt 7))
                    (Inr [(''errors'', PList []),
                          (''answer'', PDict [(''status'', PStr ''failed'')])]),
                  Log Info (Msg_finished (PInt 7) md5 (PStr ''failed'')
                              (analyzers_list observable_args)),
                  Log Error (Msg_error (Polling_timeout (PInt 7)) md5),
                  Log Info (Msg_elapsed_time (PList [])),
                  Log Info Msg_results]
               @ snd (present (scripted_env one_file) False sub (PList [])))"
proof -
  define script where "script =
          [envelope (PList []) [(''status'', PStr ''running''), (''job_id'', PInt 7)],
           envelope (PList []) [(''status'', PStr ''failed'')]]"
  define r where "r = [(''errors'', PList []), (''answer'', PDict [(''status'', PStr ''failed'')])]"
  obtain out s' evs where
    run: "intel_owl_client (scripted_env one_file) observable_args script = (out, s', evs)"
    by (cases "intel_owl_client (scripted_env one_file) observable_args script")
  have mem: "Api (Ask_analysis_result (PInt 7)) (Inr r)
      \<in> set (snd (snd (intel_owl_client (scripted_env one_file) observable_args script)))"
    unfolding r_def script_def by code_simp
  have h: "has_status r (PStr ''failed'')" "terminal_status (PStr ''failed'')"
    "\<not> truthy (field_of r ''results'' (PList []))"
    and f: "field_of r ''results'' (PList []) = PList []"
      "field_of r ''elapsed_time_in_seconds'' (PList []) = PList []"
      "\<not> show_colors observable_args"
    by (simp_all add: r_def has_status_def terminal_status_def field_of_def errors_of_def
        answer_of_def dict_get_def observable_args_def base_args_def)
  from finished_without_results_is_timeout [OF run _ h] mem run h f
  show ?thesis
    unfolding r_def script_def by simp blast
qed

subsection \<open>Polling without a terminal status\<close>

lemma goes_on_continues:
  assumes "goes_on reply"
  obtains d lg where "reply = Inr d" and "poll_once a md5 j d = Continue lg"
proof -
  from assms obtain d where d: "reply = Inr d"
    by (cases reply) (simp_all add: goes_on_def)
  from assms d have "\<exists>lg. poll_once a md5 j d = Continue lg"
    by (auto simp: goes_on_def poll_once_def errors_of_def answer_of_def terminal_status_def
        Let_def split: sum.splits)
  with d that show ?thesis by blast
qed

lemma polling_loop_goes_on:
  "polling_loop env a md5 j n s = (st, s1, evs) \<Longrightarrow>
   \<forall>cr\<in>set (api_events evs). goes_on (snd cr) \<Longrightarrow>
   st = (None, PList [], PNone) \<and> length (api_events evs) = n"
proof (induction n arbitrary: s st s1 evs)
  case 0
  then show ?case by simp
next
  case (Suc n)
  obtain reply s' where serve: "serve env s (Ask_analysis_result j) = (reply, s')"
    by (cases "serve env s (Ask_analysis_result j)")
  let ?pre = "[Sleep polling_interval, Api (Ask_analysis_result j) reply]"
  have first: "(Ask_analysis_result j, reply) \<in> set (api_events evs)"
    using Suc.prems(1) serve
    by (auto simp: after_def Let_def split: sum.splits poll_action.splits prod.splits)
  with Suc.prems(2) have "goes_on reply" by auto
  then obtain d lg where d: "reply = Inr d" and once: "poll_once a md5 j d = Continue lg"
    by (rule goes_on_continues)
  obtain st' s'' evs' where rest: "polling_loop env a md5 j n s' = (st', s'', evs')"
    by (cases "polling_loop env a md5 j n s'") auto
  from Suc.prems(1) serve d once rest
  have evs: "evs = ?pre @ lg @ evs'" and st: "st = st'"
    by (auto simp: after_def)
  from Suc.prems(2) evs have "\<forall>cr\<in>set (api_events evs'). goes_on (snd cr)" by simp
  from Suc.IH[OF rest this] evs st poll_once_quiet(1)[OF once] d show ?case by simp
qed

lemma present_not_exited: "fst (present env colors sub results) \<noteq> Exited n"
  by (auto simp: present_def Let_def split: sum.splits option.splits)

lemma present_plain:
  "present env False sub results = (Returned, [PPrint results])"
  by (simp add: present_def)

lemma polling_started:
  "polling env a md5 j s = (st, s1, evs) \<Longrightarrow> \<exists>evs'. evs = Log Info Msg_started_polling # evs'"
  by (auto simp: polling_def split: prod.splits option.splits if_splits)


lemma polling_goes_on:
  assumes "polling env a md5 j s = ((raised, results, elapsed_time), s1, evs3)"
    and "\<forall>cr\<in>set (api_events evs3). goes_on (snd cr)"
  shows "raised = Some (IntelOwlClientException (Polling_timeout j))
     \<and> results = PList [] \<and> elapsed_time = PNone
     \<and> length (filter is_poll (api_calls evs3)) = polling_max_tries"
proof -
  obtain st' s' evs' where loop: "polling_loop env a md5 j polling_max_tries s = (st', s', evs')"
    by (cases "polling_loop env a md5 j polling_max_tries s") auto
  from assms(1) loop have evs: "evs3 = Log Info Msg_started_polling # evs'"
    by (auto simp: polling_def split: prod.splits option.splits if_splits)
  with assms(2) have "\<forall>cr\<in>set (api_events evs'). goes_on (snd cr)" by simp
  from polling_loop_goes_on[OF loop this]
  have st': "st' = (None, PList [], PNone)" and n: "length (api_events evs') = polling_max_tries"
    by simp_all
  from polling_loop_calls[OF loop] obtain k where
    "api_calls evs' = replicate k (Ask_analysis_result j)" by blast
  then have "filter is_poll (api_calls evs') = api_calls evs'" by simp
  with n have "length (filter is_poll (api_calls evs3)) = polling_max_tries"
    by (simp add: evs api_calls_def)
  moreover from assms(1) loop st'
  have "raised = Some (IntelOwlClientException (Polling_timeout j))
     \<and> results = PList [] \<and> elapsed_time = PNone"
    by (simp add: polling_def)
  ultimately show ?thesis by simp
qed

lemma polling_loop_replies:
  "polling_loop env a md5 j n s = (st, s1, evs) \<Longrightarrow> (c, r) \<in> set (api_events evs) \<Longrightarrow>
   \<exists>s0. r = fst (serve env s0 c)"
proof (induction n arbitrary: s st s1 evs)
  case 0
  then show ?case by simp
next
  case (Suc n)
  obtain reply s' where serve: "serve env s (Ask_analysis_result j) = (reply, s')"
    by (cases "serve env s (Ask_analysis_result j)")
  have first: "reply = fst (serve env s (Ask_analysis_result j))" using serve by simp
  obtain st' s'' evs' where rest: "polling_loop env a md5 j n s' = (st', s'', evs')"
    by (cases "polling_loop env a md5 j n s'") auto
  from Suc.prems serve rest
  have "(c, r) = (Ask_analysis_result j, reply) \<or> (c, r) \<in> set (api_events evs')"
    by (auto simp: after_def Let_def split: sum.splits poll_action.splits
        dest: poll_once_quiet)
  then show ?case
  proof
    assume "(c, r) = (Ask_analysis_result j, reply)"
    with first show ?thesis by blast
  next
    assume "(c, r) \<in> set (api_events evs')"
    from Suc.IH[OF rest this] show ?thesis .
  qed
qed

lemma client_poll_replies:
  assumes "intel_owl_client env a s = (out, s', evs)"
    and "Api c r \<in> set evs" and "is_poll c"
  shows "\<exists>s0. r = fst (serve env s0 c)"
proof -
  from assms(2) have mem: "(c, r) \<in> set (api_events evs)" by (simp add: api_events_mem)
  from client_poll_event[OF assms(1) mem assms(3)]
  obtain p :: prepared and job s2 evs3 raised results elapsed_time
    where po: "polling env a (p_md5 p) job s2 = ((raised, results, elapsed_time), s', evs3)"
      and in3: "(c, r) \<in> set (api_events evs3)"
    by auto
  obtain st' s1 evs' where loop:
    "polling_loop env a (p_md5 p) job polling_max_tries s2 = (st', s1, evs')"
    by (cases "polling_loop env a (p_md5 p) job polling_max_tries s2") auto
  from po loop have "evs3 = Log Info Msg_started_polling # evs'"
    by (auto simp: polling_def split: prod.splits option.splits if_splits)
  with in3 have "(c, r) \<in> set (api_events evs')" by simp
  from polling_loop_replies[OF loop this] show ?thesis .
qed

text \<open>
  When a run polls and every poll is answered, without errors, with a status after which
  the loop goes on, the run polls exactly 1200 times and then raises the exception of the
  polling timeout.  The handler logs it, and the run goes on to the two final log lines
  and to the presentation, with no elapsed time and empty results.
\<close>

lemma fruitless_polling_raises_timeout:
  assumes "intel_owl_client env a s = (out, s', evs)"
    and "filter is_poll (api_calls evs) \<noteq> []"
    and "\<forall>c r. Api c r \<in> set evs \<longrightarrow> is_poll c \<longrightarrow> goes_on r"
  shows "length (filter is_poll (api_calls evs)) = 1200
     \<and> (\<exists>pre j md5 sub.
           evs = pre @ [Log Error (Msg_error (Polling_timeout j) md5),
                        Log Info (Msg_elapsed_time PNone), Log Info Msg_results]
                 @ snd (present env (show_colors a) sub (PList []))
           \<and> out = fst (present env (show_colors a) sub (PList [])))
     \<and> (\<not> show_colors a \<longrightarrow> out = Returned \<and> last evs = PPrint (PList []))"
proof -
  from assms(2) obtain c where "c \<in> set (api_calls evs)" and poll: "is_poll c"
    by (auto simp: filter_empty_conv)
  then obtain r where mem: "(c, r) \<in> set (api_events evs)"
    by (auto simp: api_calls_def)
  from client_poll_event[OF assms(1) mem poll]
  obtain p :: prepared and job s2 pre evs3 raised results elapsed_time
    where po: "polling env a (p_md5 p) job s2 = ((raised, results, elapsed_time), s', evs3)"
      and evs: "evs = pre @ evs3
               @ snd (epilogue env a (case raised of Some e \<Rightarrow> Raised e | None \<Rightarrow> Completed)
                       \<lparr>l_md5 = p_md5 p, l_results = results, l_elapsed_time = elapsed_time,
                        l_subcommand = p_subcommand p\<rparr>)"
      and out: "out = fst (epilogue env a (case raised of Some e \<Rightarrow> Raised e | None \<Rightarrow> Completed)
                       \<lparr>l_md5 = p_md5 p, l_results = results, l_elapsed_time = elapsed_time,
                        l_subcommand = p_subcommand p\<rparr>)"
      and pre: "filter is_poll (api_calls pre) = []"
    by auto
  from polling_calls[OF po] obtain k where
    k: "api_calls evs3 = replicate k (Ask_analysis_result job)" by blast
  have "\<forall>cr\<in>set (api_events evs3). goes_on (snd cr)"
  proof
    fix cr assume cr: "cr \<in> set (api_events evs3)"
    then have "fst cr \<in> set (api_calls evs3)" by (auto simp: api_calls_def)
    with k have "is_poll (fst cr)" by auto
    moreover from cr evs have "Api (fst cr) (snd cr) \<in> set evs"
      by (simp add: api_events_mem)
    ultimately show "goes_on (snd cr)" using assms(3) by blast
  qed
  from polling_goes_on[OF po this]
  have st: "raised = Some (IntelOwlClientException (Polling_timeout job))"
      "results = PList []" "elapsed_time = PNone"
    and n: "length (filter is_poll (api_calls evs3)) = polling_max_tries"
    by simp_all
  have "length (filter is_poll (api_calls evs)) = 1200"
    using evs pre n by (simp add: polling_max_tries_def)
  moreover have shape: "evs = (pre @ evs3) @ [Log Error (Msg_error (Polling_timeout job) (p_md5 p)),
                        Log Info (Msg_elapsed_time PNone), Log Info Msg_results]
                 @ snd (present env (show_colors a) (p_subcommand p) (PList []))"
    using evs st by (simp add: epilogue_snd)
  moreover have out': "out = fst (present env (show_colors a) (p_subcommand p) (PList []))"
    using out st by (simp add: epilogue_fst)
  moreover have "\<not> show_colors a \<longrightarrow> out = Returned \<and> last evs = PPrint (PList [])"
    using out' shape by (simp add: present_plain)
  ultimately show ?thesis by blast
qed


text \<open>
  Claim C7 holds of the design and fails in one case.  In file mode with
  \<^verbatim>\<open>--show-colors\<close>, on the service whose jobs run forever: every poll of the run is
  answered with a status after which the loop goes on, the run polls 1200 times, and the
  exception of the polling timeout is raised and logged; but after the two final log
  lines the presentation reads \<^verbatim>\<open>args.value\<close> (line 320), which the \<^verbatim>\<open>file\<close>
  subcommand does not define, so that nothing is printed and the run ends with an
  uncaught \<^verbatim>\<open>AttributeError\<close>.
\<close>

theorem fruitless_polling_with_colors_in_file_mode:
  "list_all goes_on
     (map snd (filter (is_poll \<circ> fst)
        (api_events (snd (snd (intel_owl_client busy_env coloured_file_args ()))))))
   \<and> length (filter is_poll
        (api_calls (snd (snd (intel_owl_client busy_env coloured_file_args ()))))) = 1200
   \<and> drop (length (snd (snd (intel_owl_client busy_env coloured_file_args ()))) - 3)
        (snd (snd (intel_owl_client busy_env coloured_file_args ())))
       = [Log Error (Msg_error (Polling_timeout (PInt 7)) (Some ''md5:MZ'')),
          Log Info (Msg_elapsed_time PNone), Log Info Msg_results]
   \<and> fst (intel_owl_client busy_env coloured_file_args ()) = Uncaught AttributeError"
proof -
  obtain out s' evs where run: "intel_owl_client busy_env coloured_file_args () = (out, s', evs)"
    by (cases "intel_owl_client busy_env coloured_file_args ()")
  have busy: "goes_on (fst (serve busy_env s0 c))" if "is_poll c" for s0 c
    using that
    by (simp add: busy_env_def envelope_def goes_on_def errors_of_def answer_of_def
        dict_get_def terminal_status_def)
  have h2: "\<forall>c r. Api c r \<in> set evs \<longrightarrow> is_poll c \<longrightarrow> goes_on r"
    using client_poll_replies[OF run] busy by blast
  then have all: "list_all goes_on (map snd (filter (is_poll \<circ> fst) (api_events evs)))"
    by (auto simp: list_all_iff api_events_mem)
  have valid: "passes_validation coloured_file_args" "show_colors coloured_file_args"
    by (simp_all add: passes_validation_def coloured_file_args_def file_args_def base_args_def)
  have prep: "\<exists>p. prepare_input busy_env coloured_file_args
        = (Inr p, [Read_file ''/tmp/sample.bin''])
      \<and> p_md5 p = Some ''md5:MZ'' \<and> p_subcommand p = File_subcommand ''/tmp/sample.bin''
      \<and> \<not> p_get_configuration_only p"
    by (simp add: prepare_input_def coloured_file_args_def file_args_def base_args_def
        busy_env_def one_file_def)
  have avail: "\<exists>evs1. ask_analysis_availability busy_env coloured_file_args md5 ()
      = (Inr (True, PInt 7), (), evs1)" for md5
    by (simp add: ask_analysis_availability_def coloured_file_args_def file_args_def
        base_args_def busy_env_def envelope_def dict_get_def Let_def)
  from run have "length (filter is_poll (api_calls evs)) = 1200
     \<and> drop (length evs - 3) evs
         = [Log Error (Msg_error (Polling_timeout (PInt 7)) (Some ''md5:MZ'')),
            Log Info (Msg_elapsed_time PNone), Log Info Msg_results]
     \<and> out = Uncaught AttributeError"
  proof (cases rule: client_cases)
    case (rejected msg)
    with valid show ?thesis by simp
  next
    case (prepare_raised e evs0 l)
    with prep show ?thesis by auto
  next
    case (configs_raised p evs0 e evs1 l)
    with prep show ?thesis by auto
  next
    case (configs_exit p evs0 evs1)
    with prep show ?thesis by auto
  next
    case (analysed p evs0 raised results elapsed_time evsa r l)
    from prep analysed(2) have p: "p_md5 p = Some ''md5:MZ''"
      "p_subcommand p = File_subcommand ''/tmp/sample.bin''" by auto
    from analysed(4) show ?thesis
    proof (cases rule: analysis_cases)
      case (reused job s1 evs1 evs3)
      from avail[of "p_md5 p"] reused(1) have job: "job = PInt 7" by auto
      from polling_calls[OF reused(2)] obtain k where
        k: "api_calls evs3 = replicate k (Ask_analysis_result job)" by blast
      have "\<forall>cr\<in>set (api_events evs3). goes_on (snd cr)"
      proof
        fix cr assume cr: "cr \<in> set (api_events evs3)"
        then have "fst cr \<in> set (api_calls evs3)" by (auto simp: api_calls_def)
        with k have "is_poll (fst cr)" by auto
        moreover from cr analysed(8) reused(3) have "Api (fst cr) (snd cr) \<in> set evs"
          by (simp add: api_events_mem)
        ultimately show "goes_on (snd cr)" using h2 by blast
      qed
      from polling_goes_on[OF reused(2) this]
      have st: "raised = Some (IntelOwlClientException (Polling_timeout (PInt 7)))"
          "results = PList []" "elapsed_time = PNone"
        and n: "length (filter is_poll (api_calls evs3)) = polling_max_tries"
        by (simp_all add: job)
      have ep: "epilogue busy_env coloured_file_args r l
          = (Uncaught AttributeError,
             [Log Error (Msg_error (Polling_timeout (PInt 7)) (Some ''md5:MZ'')),
              Log Info (Msg_elapsed_time PNone), Log Info Msg_results])"
        using analysed(5,6) st p valid(2) by (simp add: epilogue_def present_def)
      have "length (filter is_poll (api_calls evs)) = 1200"
        using analysed(8) reused(3) n availability_no_poll[OF reused(1)]
          prepare_input_calls[OF analysed(2)]
        by (simp add: ep polling_max_tries_def api_calls_def)
      moreover have "drop (length evs - 3) evs
         = [Log Error (Msg_error (Polling_timeout (PInt 7)) (Some ''md5:MZ'')),
            Log Info (Msg_elapsed_time PNone), Log Info Msg_results]"
        using analysed(8) by (simp add: ep)
      moreover have "out = Uncaught AttributeError"
        using analysed(7) by (simp add: ep)
      ultimately show ?thesis by simp
    qed (use avail[of "p_md5 p"] in auto)
  qed
  with all run show ?thesis by simp
qed

end
